theory Spec2Isabelle
  imports Complex_Main "HOL-Library.AList" "HOL-Library.Sublist" "HOL-Library.Multiset"
begin

section \<open>Values exchanged between the coordinator and the agents\<close>

text \<open>
  Plans, architectures and stage results are Python values obtained from JSON text.
  Dictionaries keep their insertion order, so an object is an association list read
  with \<open>map_of\<close> and written with \<open>AList.update\<close> (replace in place, or append).
  Numbers are integers here; no definition below computes with them.
\<close>

datatype json =
    JNull
  | JBool bool
  | JNum int
  | JStr string
  | JArr "json list"
  | JObj "(string \<times> json) list"

text \<open>The name Python prints for the type of a value, as it appears in an AttributeError.\<close>

fun type_name :: "json \<Rightarrow> string" where
  "type_name JNull = ''NoneType''"
| "type_name (JBool _) = ''bool''"
| "type_name (JNum _) = ''int''"
| "type_name (JStr _) = ''str''"
| "type_name (JArr _) = ''list''"
| "type_name (JObj _) = ''dict''"

text \<open>
  \<open>value.get(key, default)\<close>: on a dictionary the bound value or the default; on anything
  else Python raises AttributeError, whose message is the \<open>Inl\<close> result.
\<close>

definition dict_get :: "json \<Rightarrow> string \<Rightarrow> json \<Rightarrow> string + json" where
  "dict_get v key dflt =
     (case v of
        JObj kvs \<Rightarrow> Inr (case map_of kvs key of None \<Rightarrow> dflt | Some x \<Rightarrow> x)
      | _ \<Rightarrow> Inl ([CHR 0x27] @ type_name v @ [CHR 0x27] @ '' object has no attribute ''
                 @ [CHR 0x27] @ ''get'' @ [CHR 0x27]))"

section \<open>The project registry (main.py)\<close>

record project_request =
  project_name :: string
  description :: string
  frontend_framework :: "string option"
  backend_framework :: "string option"
  database :: "string option"
  include_ai :: "bool option"
  deployment_target :: "string option"

text \<open>One entry of \<open>active_projects\<close>: the dictionary built by \<open>create_project\<close>.\<close>

record project =
  ident :: string
  name :: string
  status :: string
  progress :: real
  details :: "(string \<times> json) list"

type_synonym registry = "string \<rightharpoonup> project"

definition opt_str :: "string option \<Rightarrow> json" where
  "opt_str s = (case s of None \<Rightarrow> JNull | Some x \<Rightarrow> JStr x)"

definition opt_bool :: "bool option \<Rightarrow> json" where
  "opt_bool b = (case b of None \<Rightarrow> JNull | Some x \<Rightarrow> JBool x)"

text \<open>
  \<open>create_project\<close> (main.py 78-111). The identifier is drawn by \<open>uuid.uuid4()\<close> and is a
  parameter here; scheduling the background task is not part of the record.
\<close>

definition new_project :: "string \<Rightarrow> project_request \<Rightarrow> project" where
  "new_project project_id request =
     \<lparr> ident = project_id,
       name = project_name request,
       status = ''initializing'',
       progress = 0.0,
       details =
         [(''description'', JStr (description request)),
          (''frontend_framework'', opt_str (frontend_framework request)),
          (''backend_framework'', opt_str (backend_framework request)),
          (''database'', opt_str (database request)),
          (''include_ai'', opt_bool (include_ai request)),
          (''deployment_target'', opt_str (deployment_target request)),
          (''created_files'', JArr [])] \<rparr>"

definition create_project :: "string \<Rightarrow> project_request \<Rightarrow> registry \<Rightarrow> registry" where
  "create_project project_id request active_projects =
     active_projects(project_id \<mapsto> new_project project_id request)"

section \<open>The pipeline coordinator (main.py, process_project_request)\<close>

text \<open>
  The stage executors call the generative model and the file manager; what they return
  is not determined by the coordinator. Each is a field of \<open>agents\<close>: a function of the
  arguments the coordinator passes, giving \<open>Inr\<close> the returned artifact or \<open>Inl\<close> the text
  \<open>str(e)\<close> of the exception it raised. \<open>setup_project_directory\<close> stands for lines 163-168
  (remove and recreate the project directory): \<open>Some\<close> the text of an OSError, or \<open>None\<close>.
\<close>

record agents =
  setup_project_directory :: "string \<Rightarrow> string option"
  create_project_plan :: "string \<Rightarrow> project_request \<Rightarrow> string + json"
  create_architecture :: "string \<Rightarrow> json \<Rightarrow> string + json"
  implement_frontend :: "string \<Rightarrow> string \<Rightarrow> json \<Rightarrow> json \<Rightarrow> string + json"
  implement_backend :: "string \<Rightarrow> string \<Rightarrow> json \<Rightarrow> json \<Rightarrow> string + json"
  implement_ai_components :: "string \<Rightarrow> string \<Rightarrow> json \<Rightarrow> json \<Rightarrow> string + json"
  create_documentation ::
    "string \<Rightarrow> string \<Rightarrow> json \<Rightarrow> json \<Rightarrow> json \<Rightarrow> json \<Rightarrow> json \<Rightarrow> string + json"
  finalize_project :: "string \<Rightarrow> string \<Rightarrow> string + json"
  get_project_files :: "string \<Rightarrow> string + json"

text \<open>The handler of lines 283-288: status becomes error, the message is stored.\<close>

definition on_exception :: "string \<Rightarrow> project \<Rightarrow> project" where
  "on_exception e p =
     p\<lparr> status := ''error'', details := AList.update ''error'' (JStr e) (details p) \<rparr>"

text \<open>
  Each function below is one stretch of \<open>process_project_request\<close>, from an update of
  the record to the end of the run. It returns the states the record takes from there
  on, one per block of assignments between two calls that may raise; the last element
  is the state the run leaves behind.
\<close>

text \<open>Lines 275-281: the record after the finalize stage has returned.\<close>

definition after_finalize ::
  "agents \<Rightarrow> project_request \<Rightarrow> json \<Rightarrow> project \<Rightarrow> project list" where
  "after_finalize ag request final_report p =
     (let p1 = p\<lparr> status := ''completed'', progress := 1.0,
                  details := AList.update ''final_report'' final_report (details p) \<rparr>
      in p1 # (case get_project_files ag (project_name request) of
                 Inl e \<Rightarrow> [on_exception e p1]
               | Inr files \<Rightarrow>
                   [p1\<lparr> details := AList.update ''created_files'' files (details p1) \<rparr>]))"

text \<open>Lines 263-273: the record after the documentation stage has returned.\<close>

definition after_documentation ::
  "agents \<Rightarrow> string \<Rightarrow> project_request \<Rightarrow> json \<Rightarrow> project \<Rightarrow> project list" where
  "after_documentation ag project_id request doc_results p =
     (let p1 = p\<lparr> status := ''finalizing'', progress := 0.9,
                  details := AList.update ''doc_results'' doc_results (details p) \<rparr>
      in p1 # (case finalize_project ag project_id (project_name request) of
                 Inl e \<Rightarrow> [on_exception e p1]
               | Inr final_report \<Rightarrow> after_finalize ag request final_report p1))"

text \<open>Lines 247-261: entering the documentation stage with the AI results at hand.\<close>

definition documentation_stage ::
  "agents \<Rightarrow> string \<Rightarrow> project_request \<Rightarrow> json \<Rightarrow> json \<Rightarrow> json \<Rightarrow> json \<Rightarrow> json
     \<Rightarrow> project \<Rightarrow> project list" where
  "documentation_stage ag project_id request project_plan architecture frontend_results
       backend_results ai_results p =
     (let p1 = p\<lparr> status := ''creating_documentation'', progress := 0.8 \<rparr>
      in p1 # (case create_documentation ag project_id (project_name request) project_plan
                      architecture frontend_results backend_results ai_results of
                 Inl e \<Rightarrow> [on_exception e p1]
               | Inr doc_results \<Rightarrow> after_documentation ag project_id request doc_results p1))"

text \<open>
  Lines 229-245: the record after the backend stage has returned, and the optional AI
  stage. \<open>if request.include_ai\<close> is false for \<open>False\<close> and for \<open>None\<close>.
\<close>

definition after_backend ::
  "agents \<Rightarrow> string \<Rightarrow> project_request \<Rightarrow> json \<Rightarrow> json \<Rightarrow> json \<Rightarrow> json
     \<Rightarrow> project \<Rightarrow> project list" where
  "after_backend ag project_id request project_plan architecture frontend_results
       backend_results p =
     (let p1 = p\<lparr> progress := 0.7,
                  details := AList.update ''backend_results'' backend_results (details p) \<rparr>
      in p1 #
         (if include_ai request = Some True then
            (let p2 = p1\<lparr> status := ''creating_ai_components'' \<rparr>
             in p2 #
                (case dict_get project_plan ''ai_tasks'' (JArr []) of
                   Inl e \<Rightarrow> [on_exception e p2]
                 | Inr ai_tasks \<Rightarrow>
                    (case dict_get architecture ''ai'' (JObj []) of
                       Inl e \<Rightarrow> [on_exception e p2]
                     | Inr ai_architecture \<Rightarrow>
                        (case implement_ai_components ag project_id (project_name request)
                                ai_tasks ai_architecture of
                           Inl e \<Rightarrow> [on_exception e p2]
                         | Inr ai_results \<Rightarrow>
                            (let p3 = p2\<lparr> details :=
                                        AList.update ''ai_results'' ai_results (details p2) \<rparr>
                             in p3 # documentation_stage ag project_id request project_plan
                                       architecture frontend_results backend_results
                                       ai_results p3)))))
          else documentation_stage ag project_id request project_plan architecture
                 frontend_results backend_results (JObj []) p1))"

text \<open>Lines 214-227: the record after the frontend stage has returned, and the backend stage.\<close>

definition after_frontend ::
  "agents \<Rightarrow> string \<Rightarrow> project_request \<Rightarrow> json \<Rightarrow> json \<Rightarrow> json \<Rightarrow> project \<Rightarrow> project list" where
  "after_frontend ag project_id request project_plan architecture frontend_results p =
     (let p1 = p\<lparr> status := ''creating_backend'', progress := 0.5,
                  details := AList.update ''frontend_results'' frontend_results (details p) \<rparr>
      in p1 #
         (case dict_get project_plan ''backend_tasks'' (JArr []) of
            Inl e \<Rightarrow> [on_exception e p1]
          | Inr backend_tasks \<Rightarrow>
             (case dict_get architecture ''backend'' (JObj []) of
                Inl e \<Rightarrow> [on_exception e p1]
              | Inr backend_architecture \<Rightarrow>
                 (case implement_backend ag project_id (project_name request)
                         backend_tasks backend_architecture of
                    Inl e \<Rightarrow> [on_exception e p1]
                  | Inr backend_results \<Rightarrow>
                      after_backend ag project_id request project_plan architecture
                        frontend_results backend_results p1))))"

text \<open>Lines 199-212: the record after the architecture stage has returned, and the frontend stage.\<close>

definition after_architecture ::
  "agents \<Rightarrow> string \<Rightarrow> project_request \<Rightarrow> json \<Rightarrow> json \<Rightarrow> project \<Rightarrow> project list" where
  "after_architecture ag project_id request project_plan architecture p =
     (let p1 = p\<lparr> status := ''creating_frontend'', progress := 0.3,
                  details := AList.update ''architecture'' architecture (details p) \<rparr>
      in p1 #
         (case dict_get project_plan ''frontend_tasks'' (JArr []) of
            Inl e \<Rightarrow> [on_exception e p1]
          | Inr frontend_tasks \<Rightarrow>
             (case dict_get architecture ''frontend'' (JObj []) of
                Inl e \<Rightarrow> [on_exception e p1]
              | Inr frontend_architecture \<Rightarrow>
                 (case implement_frontend ag project_id (project_name request)
                         frontend_tasks frontend_architecture of
                    Inl e \<Rightarrow> [on_exception e p1]
                  | Inr frontend_results \<Rightarrow>
                      after_frontend ag project_id request project_plan architecture
                        frontend_results p1))))"

text \<open>Lines 187-197: the record after the plan stage has returned, and the architecture stage.\<close>

definition after_plan ::
  "agents \<Rightarrow> string \<Rightarrow> project_request \<Rightarrow> json \<Rightarrow> project \<Rightarrow> project list" where
  "after_plan ag project_id request project_plan p =
     (let p1 = p\<lparr> status := ''designing_architecture'', progress := 0.2,
                  details := AList.update ''project_plan'' project_plan (details p) \<rparr>
      in p1 # (case create_architecture ag project_id project_plan of
                 Inl e \<Rightarrow> [on_exception e p1]
               | Inr architecture \<Rightarrow>
                   after_architecture ag project_id request project_plan architecture p1))"

text \<open>Lines 161-185: directory set-up, the planning status, and the plan stage.\<close>

definition pipeline_states ::
  "agents \<Rightarrow> string \<Rightarrow> project_request \<Rightarrow> project \<Rightarrow> project list" where
  "pipeline_states ag project_id request p =
     (case setup_project_directory ag (project_name request) of
        Some e \<Rightarrow> [on_exception e p]
      | None \<Rightarrow>
         (let p1 = p\<lparr> status := ''planning'', progress := 0.1 \<rparr>
          in p1 # (case create_project_plan ag project_id request of
                     Inl e \<Rightarrow> [on_exception e p1]
                   | Inr project_plan \<Rightarrow> after_plan ag project_id request project_plan p1)))"

text \<open>
  The history of the record over one run: the record as \<open>create_project\<close> left it,
  then every state the run gives it.
\<close>

definition run_trace ::
  "agents \<Rightarrow> string \<Rightarrow> project_request \<Rightarrow> project list" where
  "run_trace ag project_id request =
     new_project project_id request
       # pipeline_states ag project_id request (new_project project_id request)"

definition final_state :: "agents \<Rightarrow> string \<Rightarrow> project_request \<Rightarrow> project" where
  "final_state ag project_id request = last (run_trace ag project_id request)"

text \<open>
  \<open>process_project_request\<close> on the registry: an identifier that is not registered makes
  line 162 raise KeyError, and the handler then finds no record to update.
\<close>

definition process_project_request ::
  "agents \<Rightarrow> string \<Rightarrow> project_request \<Rightarrow> registry \<Rightarrow> registry" where
  "process_project_request ag project_id request active_projects =
     (case active_projects project_id of
        None \<Rightarrow> active_projects
      | Some p \<Rightarrow>
          active_projects(project_id \<mapsto> last (p # pipeline_states ag project_id request p)))"

section \<open>The HTTP handlers on the registry and the project directories (main.py)\<close>

text \<open>
  The projects root holds one directory per project. A directory is a path bound to a
  map from the relative paths of the files below it to documents; a text file is a
  \<open>JStr\<close>. The file \<open>rel\<close> of the directory \<open>dir\<close> has the path \<open>dir/rel\<close>.
\<close>

type_synonym directory = "string \<rightharpoonup> json"

type_synonym filesystem = "string \<rightharpoonup> directory"

text \<open>\<open>os.path.join\<close> of two components (POSIX): an absolute second component wins.\<close>

definition os_path_join :: "string \<Rightarrow> string \<Rightarrow> string" where
  "os_path_join a b =
     (if b \<noteq> [] \<and> hd b = CHR ''/'' then b
      else if a = [] \<or> last a = CHR ''/'' then a @ b
      else a @ ''/'' @ b)"

definition makedirs :: "string \<Rightarrow> filesystem \<Rightarrow> filesystem" where
  "makedirs path fs = (if fs path = None then fs(path \<mapsto> Map.empty) else fs)"

text \<open>
  Modelled from the spec: \<open>FileManager.write_json\<close> of core/file_manager.py, which is not
  among the sources. The spec has every artifact persisted under the namespace of its
  project, keyed by the project's name under the projects root, as an individual
  document: the write binds the file path to the document in that directory, creating
  the directory when it is missing.
\<close>

definition write_json :: "string \<Rightarrow> string \<Rightarrow> string \<Rightarrow> json \<Rightarrow> filesystem \<Rightarrow> filesystem" where
  "write_json projects_root_dir project file_path data fs =
     (let dir = os_path_join projects_root_dir project
      in fs(dir \<mapsto> (case fs dir of None \<Rightarrow> Map.empty | Some d \<Rightarrow> d)(file_path \<mapsto> data)))"

record server =
  active_projects :: registry
  files :: filesystem

text \<open>
  What leaves a handler instead of a response: an \<open>HTTPException\<close> it raises (status code
  and detail), or the OSError of a library call, which no handler catches (\<open>str(e)\<close>).
\<close>

datatype raised = HTTPException nat string | OSError string







section \<open>Ordering the tasks (frontend.py 63-67, backend.py 63-67)\<close>

definition priority_map :: "(string \<times> nat) list" where
  "priority_map = [(''high'', 0), (''medium'', 1), (''low'', 2)]"

text \<open>
  \<open>priority_map.get(v, d)\<close>: the keys are strings, so only a string can be found; a list
  or a dictionary cannot be hashed and Python raises TypeError.
\<close>

fun priority_map_get :: "json \<Rightarrow> nat \<Rightarrow> string + nat" where
  "priority_map_get (JStr s) d = Inr (case map_of priority_map s of None \<Rightarrow> d | Some n \<Rightarrow> n)"
| "priority_map_get (JArr _) d = Inl (''unhashable type: '' @ [CHR 0x27] @ ''list'' @ [CHR 0x27])"
| "priority_map_get (JObj _) d = Inl (''unhashable type: '' @ [CHR 0x27] @ ''dict'' @ [CHR 0x27])"
| "priority_map_get _ d = Inr d"

text \<open>The sort key \<open>lambda t: priority_map.get(t.get("priority", "medium"), 1)\<close>.\<close>

definition task_rank :: "json \<Rightarrow> string + nat" where
  "task_rank t =
     (case dict_get t ''priority'' (JStr ''medium'') of
        Inl e \<Rightarrow> Inl e
      | Inr v \<Rightarrow> priority_map_get v 1)"

text \<open>\<open>sorted\<close> computes the key of every element, in order, before it sorts.\<close>

fun task_ranks :: "json list \<Rightarrow> string + nat list" where
  "task_ranks [] = Inr []"
| "task_ranks (t # ts) =
     (case task_rank t of
        Inl e \<Rightarrow> Inl e
      | Inr r \<Rightarrow> (case task_ranks ts of Inl e \<Rightarrow> Inl e | Inr rs \<Rightarrow> Inr (r # rs)))"

text \<open>
  \<open>sorted(tasks, key=...)\<close>: Python's sort is stable; \<open>sort_key\<close> is the stable insertion
  sort of the list library, applied to the tasks paired with their keys.
\<close>

definition sorted_tasks :: "json list \<Rightarrow> string + json list" where
  "sorted_tasks tasks =
     (case task_ranks tasks of
        Inl e \<Rightarrow> Inl e
      | Inr rs \<Rightarrow> Inr (map snd (sort_key fst (zip rs tasks))))"

section \<open>The frontend and backend stage executors\<close>

text \<open>\<open>if value:\<close> on a JSON value.\<close>

fun truthy :: "json \<Rightarrow> bool" where
  "truthy JNull = False"
| "truthy (JBool b) = b"
| "truthy (JNum n) = (n \<noteq> 0)"
| "truthy (JStr s) = (s \<noteq> [])"
| "truthy (JArr xs) = (xs \<noteq> [])"
| "truthy (JObj kvs) = (kvs \<noteq> [])"

text \<open>
  \<open>acc.extend(v)\<close>: a list gives its elements, a string its characters, a dictionary its
  keys; anything else is not iterable.
\<close>

fun list_extend :: "json list \<Rightarrow> json \<Rightarrow> string + json list" where
  "list_extend acc (JArr xs) = Inr (acc @ xs)"
| "list_extend acc (JStr s) = Inr (acc @ map (\<lambda>c. JStr [c]) s)"
| "list_extend acc (JObj kvs) = Inr (acc @ map JStr (remdups (map fst kvs)))"
| "list_extend acc v =
     Inl ([CHR 0x27] @ type_name v @ [CHR 0x27] @ '' object is not iterable'')"

record results =
  completed_tasks :: "json list"
  created_files :: "json list"

definition results_json :: "results \<Rightarrow> json" where
  "results_json r =
     JObj [(''completed_tasks'', JArr (completed_tasks r)),
           (''created_files'', JArr (created_files r))]"

text \<open>
  The helpers of the frontend agent prompt the generative model and write the files it
  returns, so what they return and write is a parameter: \<open>fe_process_task\<close> is
  \<open>_process_task\<close> and \<open>fe_create_config_files\<close> is \<open>_create_config_files\<close>, each giving its
  result (\<open>Inl\<close> or \<open>Some\<close>: the text of an exception) and the file system it leaves.
\<close>

record frontend_env =
  fe_process_task :: "string \<Rightarrow> json \<Rightarrow> json \<Rightarrow> filesystem \<Rightarrow> (string + json) \<times> filesystem"
  fe_create_config_files :: "string \<Rightarrow> json \<Rightarrow> filesystem \<Rightarrow> string option \<times> filesystem"

text \<open>
  The loop of frontend.py 70-77. The last component is the list of tasks handed to
  \<open>_process_task\<close>, in the order of the calls.
\<close>

fun frontend_loop ::
  "frontend_env \<Rightarrow> string \<Rightarrow> json \<Rightarrow> json list \<Rightarrow> results \<Rightarrow> filesystem \<Rightarrow> json list
     \<Rightarrow> (string + results) \<times> filesystem \<times> json list" where
  "frontend_loop env project architecture [] res fs calls = (Inr res, fs, calls)"
| "frontend_loop env project architecture (task # rest) res fs calls =
     (case fe_process_task env project task architecture fs of
        (Inl e, fs') \<Rightarrow> (Inl e, fs', calls @ [task])
      | (Inr task_result, fs') \<Rightarrow>
         (case dict_get task ''task_id'' JNull of
            Inl e \<Rightarrow> (Inl e, fs', calls @ [task])
          | Inr task_id \<Rightarrow>
             (case dict_get task ''description'' JNull of
                Inl e \<Rightarrow> (Inl e, fs', calls @ [task])
              | Inr descr \<Rightarrow>
                 (case dict_get task_result ''created_files'' (JArr []) of
                    Inl e \<Rightarrow> (Inl e, fs', calls @ [task])
                  | Inr new_files \<Rightarrow>
                     (case list_extend (created_files res) new_files of
                        Inl e \<Rightarrow> (Inl e, fs', calls @ [task])
                      | Inr all_files \<Rightarrow>
                          frontend_loop env project architecture rest
                            \<lparr> completed_tasks = completed_tasks res @
                                 [JObj [(''task_id'', task_id), (''description'', descr),
                                        (''result'', task_result)]],
                               created_files = all_files \<rparr>
                            fs' (calls @ [task]))))))"

text \<open>
  \<open>FrontendAgent.implement_frontend\<close> (frontend.py 42-85): the returned results or the
  exception text, the file system it leaves, and the tasks processed in order.
\<close>

definition FrontendAgent_implement_frontend ::
  "frontend_env \<Rightarrow> string \<Rightarrow> string \<Rightarrow> json list \<Rightarrow> json \<Rightarrow> filesystem
     \<Rightarrow> (string + json) \<times> filesystem \<times> json list" where
  "FrontendAgent_implement_frontend env projects_root_dir project tasks architecture fs =
     (let fs0 = makedirs (os_path_join projects_root_dir project) fs
      in case sorted_tasks tasks of
           Inl e \<Rightarrow> (Inl e, fs0, [])
         | Inr ordered \<Rightarrow>
            (case frontend_loop env project architecture ordered
                    \<lparr> completed_tasks = [], created_files = [] \<rparr> fs0 [] of
               (Inl e, fs1, calls) \<Rightarrow> (Inl e, fs1, calls)
             | (Inr res, fs1, calls) \<Rightarrow>
                (case fe_create_config_files env project architecture fs1 of
                   (Some e, fs2) \<Rightarrow> (Inl e, fs2, calls)
                 | (None, fs2) \<Rightarrow>
                     (Inr (results_json res),
                      write_json projects_root_dir project ''frontend/frontend_results.json''
                        (results_json res) fs2,
                      calls))))"

text \<open>
  The helpers that \<open>implement_backend\<close> calls: \<open>_setup_project_structure\<close>,
  \<open>_process_task\<close> and \<open>_finalize_backend\<close>, each giving its result (\<open>Inl\<close>: the text of an
  exception) and the file system it leaves.
\<close>

record backend_env =
  be_setup_project_structure :: "string \<Rightarrow> json \<Rightarrow> filesystem \<Rightarrow> (string + json) \<times> filesystem"
  be_process_task :: "json \<Rightarrow> string \<Rightarrow> json \<Rightarrow> filesystem \<Rightarrow> (string + json) \<times> filesystem"
  be_finalize_backend ::
    "string \<Rightarrow> json \<Rightarrow> json list \<Rightarrow> filesystem \<Rightarrow> (string + json) \<times> filesystem"

text \<open>The loop of backend.py 73-78.\<close>

fun backend_loop ::
  "backend_env \<Rightarrow> string \<Rightarrow> json \<Rightarrow> json list \<Rightarrow> results \<Rightarrow> filesystem \<Rightarrow> json list
     \<Rightarrow> (string + results) \<times> filesystem \<times> json list" where
  "backend_loop env project architecture [] res fs calls = (Inr res, fs, calls)"
| "backend_loop env project architecture (task # rest) res fs calls =
     (case be_process_task env task project architecture fs of
        (Inl e, fs') \<Rightarrow> (Inl e, fs', calls @ [task])
      | (Inr task_result, fs') \<Rightarrow>
         (if truthy task_result then
            (case dict_get task_result ''created_files'' (JArr []) of
               Inl e \<Rightarrow> (Inl e, fs', calls @ [task])
             | Inr new_files \<Rightarrow>
                (case list_extend (created_files res) new_files of
                   Inl e \<Rightarrow> (Inl e, fs', calls @ [task])
                 | Inr all_files \<Rightarrow>
                     backend_loop env project architecture rest
                       \<lparr> completed_tasks = completed_tasks res @ [task],
                          created_files = all_files \<rparr>
                       fs' (calls @ [task])))
          else backend_loop env project architecture rest res fs' (calls @ [task])))"

text \<open>\<open>BackendAgent.implement_backend\<close> (backend.py 42-84).\<close>

definition BackendAgent_implement_backend ::
  "backend_env \<Rightarrow> string \<Rightarrow> string \<Rightarrow> json list \<Rightarrow> json \<Rightarrow> filesystem
     \<Rightarrow> (string + json) \<times> filesystem \<times> json list" where
  "BackendAgent_implement_backend env projects_root_dir project tasks architecture fs =
     (let fs0 = makedirs (os_path_join projects_root_dir project) fs
      in case sorted_tasks tasks of
           Inl e \<Rightarrow> (Inl e, fs0, [])
         | Inr ordered \<Rightarrow>
            (case be_setup_project_structure env project architecture fs0 of
               (Inl e, fs1) \<Rightarrow> (Inl e, fs1, [])
             | (Inr setup_result, fs1) \<Rightarrow>
                (case dict_get setup_result ''created_files'' (JArr []) of
                   Inl e \<Rightarrow> (Inl e, fs1, [])
                 | Inr setup_files \<Rightarrow>
                    (case list_extend [] setup_files of
                       Inl e \<Rightarrow> (Inl e, fs1, [])
                     | Inr files0 \<Rightarrow>
                        (case backend_loop env project architecture ordered
                                \<lparr> completed_tasks = [], created_files = files0 \<rparr> fs1 [] of
                           (Inl e, fs2, calls) \<Rightarrow> (Inl e, fs2, calls)
                         | (Inr res, fs2, calls) \<Rightarrow>
                            (case be_finalize_backend env project architecture ordered fs2 of
                               (Inl e, fs3) \<Rightarrow> (Inl e, fs3, calls)
                             | (Inr finalizing_result, fs3) \<Rightarrow>
                                (case dict_get finalizing_result ''created_files'' (JArr []) of
                                   Inl e \<Rightarrow> (Inl e, fs3, calls)
                                 | Inr final_files \<Rightarrow>
                                    (case list_extend (created_files res) final_files of
                                       Inl e \<Rightarrow> (Inl e, fs3, calls)
                                     | Inr all_files \<Rightarrow>
                                         (Inr (results_json
                                                 (res\<lparr> created_files := all_files \<rparr>)),
                                          fs3, calls)))))))))"

text \<open>
  The helpers as backend.py has them. \<open>_setup_project_structure\<close> (lines 86-621) writes
  the set-up files and has no return statement: when it does not raise it returns
  \<open>None\<close>; what it writes and whether it raises is the parameter \<open>set_up\<close>. \<open>_process_task\<close>
  and \<open>_finalize_backend\<close> are called at lines 75 and 81 and defined nowhere: looking
  them up raises AttributeError.
\<close>

definition source_backend_env ::
  "(string \<Rightarrow> json \<Rightarrow> filesystem \<Rightarrow> string option \<times> filesystem) \<Rightarrow> backend_env" where
  "source_backend_env set_up =
     \<lparr> be_setup_project_structure =
         (\<lambda>project architecture fs.
            case set_up project architecture fs of
              (Some e, fs') \<Rightarrow> (Inl e, fs')
            | (None, fs') \<Rightarrow> (Inr JNull, fs')),
       be_process_task =
         (\<lambda>task project architecture fs.
            (Inl ([CHR 0x27] @ ''BackendAgent'' @ [CHR 0x27] @ '' object has no attribute ''
                  @ [CHR 0x27] @ ''_process_task'' @ [CHR 0x27]), fs)),
       be_finalize_backend =
         (\<lambda>project architecture tasks fs.
            (Inl ([CHR 0x27] @ ''BackendAgent'' @ [CHR 0x27] @ '' object has no attribute ''
                  @ [CHR 0x27] @ ''_finalize_backend'' @ [CHR 0x27]), fs)) \<rparr>"

text \<open>
  The backend stage as the coordinator reaches it (main.py 219-227): \<open>tasks\<close> is the value
  the plan binds to \<open>backend_tasks\<close>, which \<open>sorted\<close> iterates as \<open>extend\<close> does (a list
  gives its elements, a dictionary its keys, a string its characters), and the helpers
  are those of backend.py.
\<close>

definition repository_implement_backend ::
  "(string \<Rightarrow> json \<Rightarrow> filesystem \<Rightarrow> string option \<times> filesystem) \<Rightarrow> string \<Rightarrow> filesystem
     \<Rightarrow> string \<Rightarrow> string \<Rightarrow> json \<Rightarrow> json \<Rightarrow> string + json" where
  "repository_implement_backend set_up projects_root_dir fs project_id project tasks
       architecture =
     (case list_extend [] tasks of
        Inl e \<Rightarrow> Inl e
      | Inr task_list \<Rightarrow>
          fst (BackendAgent_implement_backend (source_backend_env set_up) projects_root_dir
                 project task_list architecture fs))"

text \<open>
  \<open>repository_backend ag\<close>: the backend stage of \<open>ag\<close> is the one of the repository, for
  some behaviour of the set-up helper, some projects root and some file system at each
  call.
\<close>

definition repository_backend :: "agents \<Rightarrow> bool" where
  "repository_backend ag \<longleftrightarrow>
     (\<forall>project_id project tasks architecture.
        \<exists>set_up projects_root_dir fs.
          implement_backend ag project_id project tasks architecture
            = repository_implement_backend set_up projects_root_dir fs project_id project
                tasks architecture)"

text \<open>
  \<open>ProjectManagerAgent.create_project_plan\<close> (project_manager.py 43-139). The first
  argument is what prompting the model and parsing its answer gave (lines 125-130); the
  plan is written under the name of the project and returned as it was parsed.
\<close>

definition ProjectManagerAgent_create_project_plan ::
  "string + json \<Rightarrow> string \<Rightarrow> string \<Rightarrow> filesystem \<Rightarrow> (string + json) \<times> filesystem" where
  "ProjectManagerAgent_create_project_plan parsed projects_root_dir project fs =
     (case parsed of
        Inl e \<Rightarrow> (Inl e, fs)
      | Inr project_plan \<Rightarrow>
          (Inr project_plan,
           write_json projects_root_dir project ''project_plan.json'' project_plan
             (makedirs (os_path_join projects_root_dir project) fs)))"

text \<open>
  \<open>ProjectManagerAgent.create_architecture\<close> (project_manager.py 141-315). The first
  argument is what prompting the model and parsing its answer gave (lines 305-310).
  The namespace of the write is \<open>project_plan.get("project_name", f"project_{project_id}")\<close>;
  a value there that is not a string is taken to raise as \<open>os.path.join\<close> does.
\<close>

definition ProjectManagerAgent_create_architecture ::
  "string + json \<Rightarrow> string \<Rightarrow> string \<Rightarrow> json \<Rightarrow> filesystem \<Rightarrow> (string + json) \<times> filesystem" where
  "ProjectManagerAgent_create_architecture parsed projects_root_dir project_id project_plan fs =
     (case parsed of
        Inl e \<Rightarrow> (Inl e, fs)
      | Inr architecture \<Rightarrow>
         (case dict_get project_plan ''project_name'' (JStr (''project_'' @ project_id)) of
            Inl e \<Rightarrow> (Inl e, fs)
          | Inr (JStr namespace) \<Rightarrow>
              (Inr architecture,
               write_json projects_root_dir namespace ''architecture.json'' architecture fs)
          | Inr other \<Rightarrow>
              (Inl (''expected str, bytes or os.PathLike object, not '' @ type_name other), fs)))"

section \<open>Cleaning a model response (frontend.py)\<close>

text \<open>
  Strings are lists of ASCII characters; \<open>isspace\<close> holds of the ASCII characters that
  \<open>str.strip()\<close> removes.
\<close>

definition isspace :: "char \<Rightarrow> bool" where
  "isspace c \<longleftrightarrow>
     c \<in> set [CHR 0x09, CHR 0x0A, CHR 0x0B, CHR 0x0C, CHR 0x0D,
               CHR 0x1C, CHR 0x1D, CHR 0x1E, CHR 0x1F, CHR 0x20]"

definition strip :: "string \<Rightarrow> string" where
  "strip s = rev (dropWhile isspace (rev (dropWhile isspace s)))"

definition startswith :: "string \<Rightarrow> string \<Rightarrow> bool" where
  "startswith s p \<longleftrightarrow> take (length p) s = p"

definition endswith :: "string \<Rightarrow> string \<Rightarrow> bool" where
  "endswith s p \<longleftrightarrow> length p \<le> length s \<and> drop (length s - length p) s = p"

text \<open>\<open>s.split(sep)\<close> for a one-character separator: never an empty list.\<close>

fun split :: "char \<Rightarrow> string \<Rightarrow> string list" where
  "split sep [] = [[]]"
| "split sep (c # cs) =
     (if c = sep then [] # split sep cs
      else (case split sep cs of
              [] \<Rightarrow> [[c]]
            | w # ws \<Rightarrow> (c # w) # ws))"

fun join :: "string \<Rightarrow> string list \<Rightarrow> string" where
  "join sep [] = []"
| "join sep [x] = x"
| "join sep (x # y # ys) = x @ sep @ join sep (y # ys)"

definition newline :: char where
  "newline = CHR 0x0A"

definition fence :: string where
  "fence = [CHR 0x60, CHR 0x60, CHR 0x60]"

text \<open>\<open>"\n".join(code.split("\n")[1:-1])\<close>: drop the first and the last line.\<close>

definition drop_fence_lines :: "string \<Rightarrow> string" where
  "drop_fence_lines code = join [newline] (butlast (tl (split newline code)))"

definition strip_if_fenced :: "string \<Rightarrow> string \<Rightarrow> string" where
  "strip_if_fenced opening code =
     (if startswith code opening \<and> endswith code fence then drop_fence_lines code else code)"

text \<open>
  \<open>_generate_component\<close>, lines 166-175: trim, remove a fence, then for each language in
  turn remove a fence that opens with that language.
\<close>

definition generate_component_clean :: "string \<Rightarrow> string" where
  "generate_component_clean response_text =
     foldl (\<lambda>code lang. strip_if_fenced (fence @ lang) code)
       (strip_if_fenced fence (strip response_text))
       [''jsx'', ''vue'', ''typescript'', ''javascript'', ''html'', ''css'']"

text \<open>\<open>_create_config_files\<close>, lines 477-484: the text of package.json before it is parsed.\<close>

definition create_config_files_clean_package_json :: "string \<Rightarrow> string" where
  "create_config_files_clean_package_json response_text =
     strip_if_fenced (fence @ ''json'') (strip_if_fenced fence (strip response_text))"

text \<open>\<open>_create_config_files\<close>, lines 569-575: index.html, cleaned by an if/elif.\<close>

definition create_config_files_clean_index_html :: "string \<Rightarrow> string" where
  "create_config_files_clean_index_html response_text =
     (let index_html = strip response_text
      in if startswith index_html (fence @ ''html'') \<and> endswith index_html fence
         then drop_fence_lines index_html
         else if startswith index_html fence \<and> endswith index_html fence
         then drop_fence_lines index_html
         else index_html)"

section \<open>Notions used to state the properties\<close>

text \<open>What a client polling the status endpoint reads of a state: status and progress.\<close>

definition sp :: "project \<Rightarrow> string \<times> real" where
  "sp p = (status p, progress p)"

text \<open>
  The states of a run in which no call raises, as status and progress; with the AI stage
  the status creating_ai_components is held by two states (before and after the AI
  results are stored).
\<close>

definition success_path :: "bool \<Rightarrow> (string \<times> real) list" where
  "success_path ai =
     [(''initializing'', 0), (''planning'', 0.1), (''designing_architecture'', 0.2),
      (''creating_frontend'', 0.3), (''creating_backend'', 0.5), (''creating_backend'', 0.7)]
     @ (if ai then [(''creating_ai_components'', 0.7), (''creating_ai_components'', 0.7)]
        else [])
     @ [(''creating_documentation'', 0.8), (''finalizing'', 0.9),
        (''completed'', 1), (''completed'', 1)]"

text \<open>
  The histories that follow a path up to some state and may then end in the error
  status, with the progress of the state they broke off from.
\<close>

fun shapes :: "(string \<times> real) list \<Rightarrow> (string \<times> real) list list" where
  "shapes [] = [[]]"
| "shapes (x # xs) = [x, (''error'', snd x)] # map ((#) x) (shapes xs)"


text \<open>
  \<open>keeps s s'\<close>: every key bound in the details of \<open>s\<close>, other than error and created_files,
  is bound to the same value in the details of \<open>s'\<close>.
\<close>

definition keeps :: "project \<Rightarrow> project \<Rightarrow> bool" where
  "keeps s s' \<longleftrightarrow>
     (\<forall>k v. k \<noteq> ''error'' \<longrightarrow> k \<noteq> ''created_files'' \<longrightarrow>
        map_of (details s) k = Some v \<longrightarrow> map_of (details s') k = Some v)"

definition unwritten :: "string list \<Rightarrow> project \<Rightarrow> bool" where
  "unwritten ks p \<longleftrightarrow> (\<forall>k \<in> set ks. map_of (details p) k = None)"

definition no_ai_results :: "project \<Rightarrow> bool" where
  "no_ai_results p \<longleftrightarrow> map_of (details p) ''ai_results'' = None"

text \<open>
  A state of a run in which the backend stage has not returned: progress is at most 0.5,
  the status is not completed, and \<open>created_files\<close> is the empty list of submission.
\<close>

definition backend_pending :: "project \<Rightarrow> bool" where
  "backend_pending s \<longleftrightarrow>
     progress s \<le> 0.5 \<and> status s \<noteq> ''completed''
     \<and> map_of (details s) ''created_files'' = Some (JArr [])"

section \<open>Sample inputs\<close>

definition demo_request :: project_request where
  "demo_request =
     \<lparr> project_name = ''demo'', description = ''a todo app'',
       frontend_framework = Some ''react'', backend_framework = Some ''fastapi'',
       database = Some ''postgresql'', include_ai = Some False,
       deployment_target = Some ''docker'' \<rparr>"

definition demo_plan :: json where
  "demo_plan =
     JObj [(''project_overview'', JStr ''todo list''),
           (''frontend_tasks'', JArr [JObj [(''task_id'', JStr ''F1''),
                                            (''description'', JStr ''list component''),
                                            (''priority'', JStr ''high'')]]),
           (''backend_tasks'', JArr [JObj [(''task_id'', JStr ''B1''),
                                           (''description'', JStr ''todo endpoint''),
                                           (''priority'', JStr ''medium'')]])]"

definition demo_architecture :: json where
  "demo_architecture =
     JObj [(''system_overview'', JStr ''two tiers''),
           (''frontend'', JObj [(''framework'', JStr ''react'')]),
           (''backend'', JObj [(''api_structure'', JArr [JStr ''/todos''])])]"

text \<open>A set-up helper that writes one file and does not raise.\<close>

definition demo_setup :: "string \<Rightarrow> json \<Rightarrow> filesystem \<Rightarrow> string option \<times> filesystem" where
  "demo_setup project architecture fs =
     (None, write_json ''/srv/projects'' project ''backend/server.js''
              (JStr ''module.exports = app;'') fs)"

text \<open>
  Agents whose model calls all succeed and give the plan and the architecture above. The
  backend stage is the one of the repository; the stages whose executors are not among
  the sources would return.
\<close>

definition demo_agents :: agents where
  "demo_agents =
     \<lparr> setup_project_directory = (\<lambda>_. None),
       create_project_plan = (\<lambda>_ _. Inr demo_plan),
       create_architecture = (\<lambda>_ _. Inr demo_architecture),
       implement_frontend = (\<lambda>_ _ _ _. Inr (JObj [(''completed_tasks'', JArr [])])),
       implement_backend = repository_implement_backend demo_setup ''/srv/projects'' Map.empty,
       implement_ai_components = (\<lambda>_ _ _ _. Inr (JObj [(''models'', JArr [])])),
       create_documentation = (\<lambda>_ _ _ _ _ _ _. Inr (JObj [(''readme'', JStr ''README.md'')])),
       finalize_project = (\<lambda>_ _. Inr (JObj [(''executive_summary'', JStr ''done'')])),
       get_project_files = (\<lambda>_. Inr (JArr [JStr ''README.md''])) \<rparr>"


text \<open>Six tasks: every rank, a missing priority, an unknown one and a null one.\<close>

definition demo_tasks :: "json list" where
  "demo_tasks =
     [JObj [(''task_id'', JStr ''T1''), (''priority'', JStr ''low'')],
      JObj [(''task_id'', JStr ''T2'')],
      JObj [(''task_id'', JStr ''T3''), (''priority'', JStr ''high'')],
      JObj [(''task_id'', JStr ''T4''), (''priority'', JStr ''urgent'')],
      JObj [(''task_id'', JStr ''T5''), (''priority'', JStr ''medium'')],
      JObj [(''task_id'', JStr ''T6''), (''priority'', JNull)]]"

text \<open>
  Helpers of the frontend agent that write nothing for a task, write package.json at the
  end and never raise; the projects root is /srv/projects.
\<close>

definition demo_frontend_env :: frontend_env where
  "demo_frontend_env =
     \<lparr> fe_process_task =
         (\<lambda>project task architecture fs. (Inr (JObj [(''created_files'', JArr [])]), fs)),
       fe_create_config_files =
         (\<lambda>project architecture fs.
            (None, write_json ''/srv/projects'' project ''frontend/package.json''
                     (JStr ''{}'') fs)) \<rparr>"

text \<open>A response wrapped in two fences, the inner one tagged with a language.\<close>

definition twice_fenced :: "string \<Rightarrow> string \<Rightarrow> string" where
  "twice_fenced lang body =
     fence @ [newline] @ fence @ lang @ [newline] @ body @ [newline] @ fence @ [newline] @ fence"

section \<open>Histories: general facts\<close>

lemma shapes_ConsE:
  assumes "l \<in> set (shapes (x # xs))"
  obtains "l = [x, (''error'', snd x)]" | l' where "l = x # l'" "l' \<in> set (shapes xs)"
  using assms by auto

lemma shapes_hd: "l \<in> set (shapes (x # xs)) \<Longrightarrow> l \<noteq> [] \<and> hd l = x"
  by auto

lemma shapes_Nil: "[] \<in> set (shapes xs) \<Longrightarrow> xs = []"
  by (cases xs) auto

lemma shapes_last: "l \<in> set (shapes xs) \<Longrightarrow> l = xs \<or> fst (last l) = ''error''"
proof (induction xs arbitrary: l)
  case Nil
  then show ?case by simp
next
  case (Cons x xs)
  from Cons.prems show ?case
  proof (cases rule: shapes_ConsE)
    case 1
    then show ?thesis by simp
  next
    case (2 l')
    show ?thesis
    proof (cases "l' = []")
      case True
      with 2 shapes_Nil show ?thesis by auto
    next
      case False
      with Cons.IH [OF 2(2)] 2(1) show ?thesis by auto
    qed
  qed
qed

lemma shapes_elems:
  "l \<in> set (shapes xs) \<Longrightarrow> y \<in> set l \<Longrightarrow> y \<in> set xs \<or> fst y = ''error''"
proof (induction xs arbitrary: l)
  case Nil
  then show ?case by simp
next
  case (Cons x xs)
  from Cons.prems(1) show ?case
  proof (cases rule: shapes_ConsE)
    case 1
    with Cons.prems(2) show ?thesis by auto
  next
    case (2 l')
    with Cons.prems(2) Cons.IH [OF 2(2)] show ?thesis by auto
  qed
qed

lemma shapes_progress: "l \<in> set (shapes xs) \<Longrightarrow> y \<in> set l \<Longrightarrow> snd y \<in> snd ` set xs"
proof (induction xs arbitrary: l)
  case Nil
  then show ?case by simp
next
  case (Cons x xs)
  from Cons.prems(1) show ?case
  proof (cases rule: shapes_ConsE)
    case 1
    with Cons.prems(2) show ?thesis by auto
  next
    case (2 l')
    with Cons.prems(2) Cons.IH [OF 2(2)] show ?thesis by auto
  qed
qed

lemma shapes_sorted:
  "sorted (map snd xs) \<Longrightarrow> l \<in> set (shapes xs) \<Longrightarrow> sorted (map snd l)"
proof (induction xs arbitrary: l)
  case Nil
  then show ?case by simp
next
  case (Cons x xs)
  from Cons.prems(2) show ?case
  proof (cases rule: shapes_ConsE)
    case 1
    then show ?thesis by simp
  next
    case (2 l')
    have "sorted (map snd l')"
      using Cons.IH [OF _ 2(2)] Cons.prems(1) by simp
    moreover have "snd x \<le> snd y" if "y \<in> set l'" for y
    proof -
      from shapes_progress [OF 2(2) that] obtain z where "z \<in> set xs" "snd y = snd z"
        by auto
      with Cons.prems(1) show ?thesis by auto
    qed
    ultimately show ?thesis
      using 2 by auto
  qed
qed



section \<open>The shape of a run\<close>

lemma sp_simps [simp]:
  "sp (p\<lparr>status := s\<rparr>) = (s, progress p)"
  "sp (p\<lparr>progress := x\<rparr>) = (status p, x)"
  "sp (p\<lparr>details := d\<rparr>) = sp p"
  "sp (on_exception e p) = (''error'', progress p)"
  by (simp_all add: sp_def on_exception_def)

lemma shapes_fail: "x' = (''error'', snd x) \<Longrightarrow> [x, x'] \<in> set (shapes (x # xs))"
  by simp

lemma shapes_Cons: "l \<in> set (shapes xs) \<Longrightarrow> x # l \<in> set (shapes (x # xs))"
  by simp

lemma after_finalize_shape:
  "map sp (after_finalize ag request final_report p)
     \<in> set (shapes [(''completed'', 1), (''completed'', 1)])"
  unfolding after_finalize_def Let_def
  by (auto split: sum.splits)

lemma after_documentation_shape:
  "map sp (after_documentation ag project_id request doc_results p)
     \<in> set (shapes [(''finalizing'', 0.9), (''completed'', 1), (''completed'', 1)])"
  unfolding after_documentation_def Let_def
  using after_finalize_shape
  by (auto split: sum.splits intro!: shapes_Cons shapes_fail simp del: shapes.simps)

lemma documentation_stage_shape:
  "map sp (documentation_stage ag project_id request project_plan architecture
             frontend_results backend_results ai_results p)
     \<in> set (shapes [(''creating_documentation'', 0.8), (''finalizing'', 0.9),
                     (''completed'', 1), (''completed'', 1)])"
  unfolding documentation_stage_def Let_def
  using after_documentation_shape
  by (auto split: sum.splits intro!: shapes_Cons shapes_fail simp del: shapes.simps)

lemma after_backend_shape:
  "status p = ''creating_backend'' \<Longrightarrow>
   map sp (after_backend ag project_id request project_plan architecture
             frontend_results backend_results p)
     \<in> set (shapes (drop 5 (success_path (include_ai request = Some True))))"
  unfolding after_backend_def Let_def success_path_def
  using documentation_stage_shape
  by (auto split: sum.splits intro!: shapes_Cons shapes_fail simp del: shapes.simps)

lemma after_frontend_shape:
  "map sp (after_frontend ag project_id request project_plan architecture frontend_results p)
     \<in> set (shapes (drop 4 (success_path (include_ai request = Some True))))"
proof -
  have "drop 4 (success_path ai) = (''creating_backend'', 0.5) # drop 5 (success_path ai)" for ai
    by (simp add: success_path_def)
  then show ?thesis
    unfolding after_frontend_def Let_def
    using after_backend_shape
    by (auto split: sum.splits intro!: shapes_Cons shapes_fail simp del: shapes.simps)
qed

lemma after_architecture_shape:
  "map sp (after_architecture ag project_id request project_plan architecture p)
     \<in> set (shapes (drop 3 (success_path (include_ai request = Some True))))"
proof -
  have "drop 3 (success_path ai) = (''creating_frontend'', 0.3) # drop 4 (success_path ai)" for ai
    by (simp add: success_path_def)
  then show ?thesis
    unfolding after_architecture_def Let_def
    using after_frontend_shape
    by (auto split: sum.splits intro!: shapes_Cons shapes_fail simp del: shapes.simps)
qed

lemma after_plan_shape:
  "map sp (after_plan ag project_id request project_plan p)
     \<in> set (shapes (drop 2 (success_path (include_ai request = Some True))))"
proof -
  have "drop 2 (success_path ai) = (''designing_architecture'', 0.2) # drop 3 (success_path ai)" for ai
    by (simp add: success_path_def)
  then show ?thesis
    unfolding after_plan_def Let_def
    using after_architecture_shape
    by (auto split: sum.splits intro!: shapes_Cons shapes_fail simp del: shapes.simps)
qed

lemma pipeline_states_shape:
  "map sp (p # pipeline_states ag project_id request p)
     \<in> set (shapes (sp p # (''planning'', 0.1)
                      # drop 2 (success_path (include_ai request = Some True))))"
  unfolding pipeline_states_def Let_def
  using after_plan_shape
  by (auto split: sum.splits option.splits intro!: shapes_Cons shapes_fail
           simp: sp_def on_exception_def simp del: shapes.simps)

lemma run_trace_shape:
  "map sp (run_trace ag project_id request)
     \<in> set (shapes (success_path (include_ai request = Some True)))"
proof -
  have eq: "success_path ai
      = sp (new_project project_id request) # (''planning'', 0.1) # drop 2 (success_path ai)" for ai
    by (simp add: success_path_def sp_def new_project_def)
  show ?thesis
    unfolding run_trace_def
    apply (subst eq)
    apply (rule pipeline_states_shape)
    done
qed

section \<open>Details are kept along a run\<close>

lemma keeps_refl [simp]: "keeps p p"
  by (simp add: keeps_def)

lemma keeps_trans: "keeps p q \<Longrightarrow> keeps q r \<Longrightarrow> keeps p r"
  by (simp add: keeps_def)

lemma keeps_same_details: "details q = details p \<Longrightarrow> keeps p q"
  by (simp add: keeps_def)

lemma keeps_new_key:
  "map_of (details p) k = None \<Longrightarrow> details q = AList.update k v (details p) \<Longrightarrow> keeps p q"
  by (auto simp: keeps_def update_conv')

lemma keeps_on_exception [simp]: "keeps p (on_exception e p)"
  by (auto simp: keeps_def on_exception_def update_conv')

lemma keeps_chain:
  "keeps p q \<Longrightarrow> sorted_wrt keeps (q # xs) \<Longrightarrow> sorted_wrt keeps (p # q # xs)"
  by (auto intro: keeps_trans)

lemma keeps_case:
  "(\<And>a. x = Inr a \<Longrightarrow> sorted_wrt keeps (q # g a))
   \<Longrightarrow> sorted_wrt keeps (q # (case x of Inl e \<Rightarrow> [on_exception e q] | Inr a \<Rightarrow> g a))"
  by (simp split: sum.splits)

lemma after_finalize_keeps:
  "unwritten [''final_report''] p
   \<Longrightarrow> sorted_wrt keeps (p # after_finalize ag request final_report p)"
  unfolding after_finalize_def Let_def
  by (rule keeps_chain, rule keeps_new_key [where k = "''final_report''"])
     (auto simp: unwritten_def keeps_def on_exception_def update_conv' split: sum.splits)

lemma after_documentation_keeps:
  "unwritten [''doc_results'', ''final_report''] p
   \<Longrightarrow> sorted_wrt keeps (p # after_documentation ag project_id request doc_results p)"
  unfolding after_documentation_def Let_def
  apply (rule keeps_chain, rule keeps_new_key [where k = "''doc_results''"])
    apply (simp add: unwritten_def)
   apply simp
  apply (intro keeps_case)
  apply (rule after_finalize_keeps)
  apply (simp add: unwritten_def update_conv')
  done

lemma documentation_stage_keeps:
  "unwritten [''doc_results'', ''final_report''] p
   \<Longrightarrow> sorted_wrt keeps (p # documentation_stage ag project_id request project_plan
          architecture frontend_results backend_results ai_results p)"
  unfolding documentation_stage_def Let_def
  apply (rule keeps_chain, rule keeps_same_details, simp)
  apply (intro keeps_case)
  apply (rule after_documentation_keeps)
  apply (simp add: unwritten_def update_conv')
  done

lemma after_backend_keeps:
  "unwritten [''backend_results'', ''ai_results'', ''doc_results'', ''final_report''] p
   \<Longrightarrow> sorted_wrt keeps (p # after_backend ag project_id request project_plan
          architecture frontend_results backend_results p)"
  unfolding after_backend_def Let_def
  apply (split if_split, intro conjI impI)
   apply (rule keeps_chain, rule keeps_new_key [where k = "''backend_results''"])
     apply (simp add: unwritten_def)
    apply simp
   apply (rule keeps_chain, rule keeps_same_details, simp)
   apply (intro keeps_case)
   apply (rule keeps_chain, rule keeps_new_key [where k = "''ai_results''"])
     apply (simp add: unwritten_def update_conv')
    apply simp
   apply (rule documentation_stage_keeps)
   apply (simp add: unwritten_def update_conv')
  apply (rule keeps_chain, rule keeps_new_key [where k = "''backend_results''"])
    apply (simp add: unwritten_def)
   apply simp
  apply (rule documentation_stage_keeps)
  apply (simp add: unwritten_def update_conv')
  done

lemma after_frontend_keeps:
  "unwritten [''frontend_results'', ''backend_results'', ''ai_results'', ''doc_results'',
              ''final_report''] p
   \<Longrightarrow> sorted_wrt keeps (p # after_frontend ag project_id request project_plan
          architecture frontend_results p)"
  unfolding after_frontend_def Let_def
  apply (rule keeps_chain, rule keeps_new_key [where k = "''frontend_results''"])
    apply (simp add: unwritten_def)
   apply simp
  apply (intro keeps_case)
  apply (rule after_backend_keeps)
  apply (simp add: unwritten_def update_conv')
  done

lemma after_architecture_keeps:
  "unwritten [''architecture'', ''frontend_results'', ''backend_results'', ''ai_results'',
              ''doc_results'', ''final_report''] p
   \<Longrightarrow> sorted_wrt keeps (p # after_architecture ag project_id request project_plan
          architecture p)"
  unfolding after_architecture_def Let_def
  apply (rule keeps_chain, rule keeps_new_key [where k = "''architecture''"])
    apply (simp add: unwritten_def)
   apply simp
  apply (intro keeps_case)
  apply (rule after_frontend_keeps)
  apply (simp add: unwritten_def update_conv')
  done

lemma after_plan_keeps:
  "unwritten [''project_plan'', ''architecture'', ''frontend_results'', ''backend_results'',
              ''ai_results'', ''doc_results'', ''final_report''] p
   \<Longrightarrow> sorted_wrt keeps (p # after_plan ag project_id request project_plan p)"
  unfolding after_plan_def Let_def
  apply (rule keeps_chain, rule keeps_new_key [where k = "''project_plan''"])
    apply (simp add: unwritten_def)
   apply simp
  apply (intro keeps_case)
  apply (rule after_architecture_keeps)
  apply (simp add: unwritten_def update_conv')
  done

lemma pipeline_states_keeps:
  "unwritten [''project_plan'', ''architecture'', ''frontend_results'', ''backend_results'',
              ''ai_results'', ''doc_results'', ''final_report''] p
   \<Longrightarrow> sorted_wrt keeps (p # pipeline_states ag project_id request p)"
  unfolding pipeline_states_def Let_def
  apply (cases "setup_project_directory ag (project_name request)")
   apply (simp only: option.case)
   apply (rule keeps_chain, rule keeps_same_details, simp)
   apply (rule keeps_case)
   apply (rule after_plan_keeps)
   apply (simp add: unwritten_def)
  apply simp
  done

lemma run_trace_keeps: "sorted_wrt keeps (run_trace ag project_id request)"
  unfolding run_trace_def
  by (rule pipeline_states_keeps) (simp add: unwritten_def new_project_def)

section \<open>No AI results without the AI stage\<close>

lemma no_ai_on_exception [simp]: "no_ai_results (on_exception e p) = no_ai_results p"
  by (simp add: no_ai_results_def on_exception_def update_conv')

lemma no_ai_case:
  "no_ai_results q \<Longrightarrow> (\<And>a. x = Inr a \<Longrightarrow> \<forall>s \<in> set (q # g a). no_ai_results s)
   \<Longrightarrow> \<forall>s \<in> set (q # (case x of Inl e \<Rightarrow> [on_exception e q] | Inr a \<Rightarrow> g a)). no_ai_results s"
  by (simp split: sum.splits)

lemma no_ai_Cons:
  "no_ai_results q \<Longrightarrow> \<forall>s \<in> set l. no_ai_results s \<Longrightarrow> \<forall>s \<in> set (q # l). no_ai_results s"
  by simp

lemma after_finalize_no_ai:
  "no_ai_results p \<Longrightarrow> \<forall>s \<in> set (after_finalize ag request final_report p). no_ai_results s"
  unfolding after_finalize_def Let_def
  by (auto simp: no_ai_results_def on_exception_def update_conv' split: sum.splits)

lemma after_documentation_no_ai:
  "no_ai_results p
   \<Longrightarrow> \<forall>s \<in> set (after_documentation ag project_id request doc_results p). no_ai_results s"
  unfolding after_documentation_def Let_def
  apply (intro no_ai_case no_ai_Cons after_finalize_no_ai)
  apply (simp_all add: no_ai_results_def update_conv')
  done

lemma documentation_stage_no_ai:
  "no_ai_results p
   \<Longrightarrow> \<forall>s \<in> set (documentation_stage ag project_id request project_plan architecture
                      frontend_results backend_results ai_results p). no_ai_results s"
  unfolding documentation_stage_def Let_def
  apply (intro no_ai_case no_ai_Cons after_documentation_no_ai)
  apply (simp_all add: no_ai_results_def update_conv')
  done

lemma after_backend_no_ai:
  "include_ai request \<noteq> Some True \<Longrightarrow> no_ai_results p
   \<Longrightarrow> \<forall>s \<in> set (after_backend ag project_id request project_plan architecture
                      frontend_results backend_results p). no_ai_results s"
  unfolding after_backend_def Let_def
  apply (simp only: if_False)
  apply (simp only: set_simps ball_simps)
  apply (rule conjI)
   apply (simp add: no_ai_results_def update_conv')
  apply (rule documentation_stage_no_ai)
  apply (simp add: no_ai_results_def update_conv')
  done

lemma after_frontend_no_ai:
  "include_ai request \<noteq> Some True \<Longrightarrow> no_ai_results p
   \<Longrightarrow> \<forall>s \<in> set (after_frontend ag project_id request project_plan architecture
                      frontend_results p). no_ai_results s"
  unfolding after_frontend_def Let_def
  apply (intro no_ai_case no_ai_Cons after_backend_no_ai)
  apply (simp_all add: no_ai_results_def update_conv')
  done

lemma after_architecture_no_ai:
  "include_ai request \<noteq> Some True \<Longrightarrow> no_ai_results p
   \<Longrightarrow> \<forall>s \<in> set (after_architecture ag project_id request project_plan architecture p).
         no_ai_results s"
  unfolding after_architecture_def Let_def
  apply (intro no_ai_case no_ai_Cons after_frontend_no_ai)
  apply (simp_all add: no_ai_results_def update_conv')
  done

lemma after_plan_no_ai:
  "include_ai request \<noteq> Some True \<Longrightarrow> no_ai_results p
   \<Longrightarrow> \<forall>s \<in> set (after_plan ag project_id request project_plan p). no_ai_results s"
  unfolding after_plan_def Let_def
  apply (intro no_ai_case no_ai_Cons after_architecture_no_ai)
  apply (simp_all add: no_ai_results_def update_conv')
  done

lemma pipeline_states_no_ai:
  "include_ai request \<noteq> Some True \<Longrightarrow> no_ai_results p
   \<Longrightarrow> \<forall>s \<in> set (pipeline_states ag project_id request p). no_ai_results s"
  unfolding pipeline_states_def Let_def
  apply (cases "setup_project_directory ag (project_name request)")
   apply (simp only: option.case)
   apply (intro no_ai_case no_ai_Cons after_plan_no_ai)
     apply (simp_all add: no_ai_results_def on_exception_def update_conv')
  done

lemma run_trace_no_ai:
  "include_ai request \<noteq> Some True
   \<Longrightarrow> \<forall>s \<in> set (run_trace ag project_id request). no_ai_results s"
  unfolding run_trace_def
  using pipeline_states_no_ai [of request "new_project project_id request" ag project_id]
  by (simp add: no_ai_results_def new_project_def)

section \<open>The coordinator: the last state of a run\<close>

lemma run_trace_nonempty: "run_trace ag project_id request \<noteq> []"
  by (simp add: run_trace_def)

text \<open>
  The background task that \<open>create_project\<close> schedules leaves in the registry the last
  state of the history studied below.
\<close>

lemma process_after_create:
  "process_project_request ag project_id request
     (create_project project_id request registry) project_id
   = Some (final_state ag project_id request)"
  by (simp add: process_project_request_def create_project_def final_state_def run_trace_def)

lemma final_state_sp:
  "sp (final_state ag project_id request) = last (map sp (run_trace ag project_id request))"
  by (simp add: final_state_def last_map run_trace_nonempty)

lemma final_state_in_run:
  "final_state ag project_id request \<in> set (run_trace ag project_id request)"
  by (simp add: final_state_def run_trace_nonempty)


lemma run_state_on_path:
  assumes "s \<in> set (run_trace ag project_id request)"
  shows "sp s \<in> set (success_path (include_ai request = Some True)) \<or> status s = ''error''"
proof -
  from assms have "sp s \<in> set (map sp (run_trace ag project_id request))"
    by simp
  from shapes_elems [OF run_trace_shape this] show ?thesis
    by (simp add: sp_def)
qed

section \<open>The backend stage of the repository\<close>

text \<open>
  With the helpers of backend.py, \<open>implement_backend\<close> raises on every call and hands no
  task to \<open>_process_task\<close>: when the sort and the set-up helper do not raise, the set-up
  helper has returned \<open>None\<close> and line 71 raises AttributeError.
\<close>

lemma source_backend_raises:
  "isl (fst (BackendAgent_implement_backend (source_backend_env set_up) projects_root_dir
               project tasks architecture fs))
   \<and> snd (snd (BackendAgent_implement_backend (source_backend_env set_up) projects_root_dir
                 project tasks architecture fs)) = []"
proof (cases "sorted_tasks tasks")
  case (Inl e)
  then show ?thesis
    by (simp add: BackendAgent_implement_backend_def Let_def)
next
  case (Inr ordered)
  show ?thesis
  proof (cases "set_up project architecture
                  (makedirs (os_path_join projects_root_dir project) fs)")
    case (Pair raised fs1)
    with Inr show ?thesis
      by (cases raised)
         (simp_all add: BackendAgent_implement_backend_def source_backend_env_def
            dict_get_def Let_def)
  qed
qed

lemma repository_implement_backend_raises:
  "repository_implement_backend set_up projects_root_dir fs project_id project tasks
     architecture \<noteq> Inr r"
proof -
  have "isl (repository_implement_backend set_up projects_root_dir fs project_id project
               tasks architecture)"
    using source_backend_raises [of set_up projects_root_dir project _ architecture fs]
    by (simp add: repository_implement_backend_def split: sum.splits)
  then show ?thesis
    by auto
qed

lemma repository_backend_raises:
  assumes "repository_backend ag"
  shows "implement_backend ag project_id project tasks architecture \<noteq> Inr r"
proof -
  from assms obtain set_up projects_root_dir fs where
    "implement_backend ag project_id project tasks architecture
       = repository_implement_backend set_up projects_root_dir fs project_id project tasks
           architecture"
    unfolding repository_backend_def by blast
  then show ?thesis
    by (simp add: repository_implement_backend_raises)
qed

lemma demo_agents_repository: "repository_backend demo_agents"
  unfolding repository_backend_def
  by (intro allI exI [of _ demo_setup] exI [of _ "''/srv/projects''"] exI [of _ Map.empty])
     (simp add: demo_agents_def)

text \<open>
  So the coordinator never gets past line 227: every state of a run has progress at most
  0.5, none is completed, and \<open>created_files\<close> stays the empty list of submission.
\<close>

lemma pending_on_exception: "backend_pending p \<Longrightarrow> backend_pending (on_exception e p)"
  by (simp add: backend_pending_def on_exception_def update_conv')

lemma pending_case:
  "backend_pending q \<Longrightarrow> (\<And>a. x = Inr a \<Longrightarrow> \<forall>s \<in> set (q # g a). backend_pending s)
   \<Longrightarrow> \<forall>s \<in> set (q # (case x of Inl e \<Rightarrow> [on_exception e q] | Inr a \<Rightarrow> g a)).
         backend_pending s"
  by (simp add: pending_on_exception split: sum.splits)

lemma pending_Cons:
  "backend_pending q \<Longrightarrow> \<forall>s \<in> set l. backend_pending s
   \<Longrightarrow> \<forall>s \<in> set (q # l). backend_pending s"
  by simp

lemma after_frontend_pending:
  assumes "repository_backend ag" and "backend_pending p"
  shows "\<forall>s \<in> set (after_frontend ag project_id request project_plan architecture
                      frontend_results p). backend_pending s"
  using assms(2) repository_backend_raises [OF assms(1)]
  unfolding after_frontend_def Let_def
  by (auto simp: backend_pending_def on_exception_def update_conv' split: sum.splits)

lemma after_architecture_pending:
  assumes "repository_backend ag" and "backend_pending p"
  shows "\<forall>s \<in> set (after_architecture ag project_id request project_plan architecture p).
           backend_pending s"
  using assms
  unfolding after_architecture_def Let_def
  apply (intro pending_case pending_Cons after_frontend_pending)
  apply (simp_all add: backend_pending_def update_conv')
  done

lemma after_plan_pending:
  assumes "repository_backend ag" and "backend_pending p"
  shows "\<forall>s \<in> set (after_plan ag project_id request project_plan p). backend_pending s"
  using assms
  unfolding after_plan_def Let_def
  apply (intro pending_case pending_Cons after_architecture_pending)
  apply (simp_all add: backend_pending_def update_conv')
  done

lemma pipeline_states_pending:
  assumes "repository_backend ag" and "backend_pending p"
  shows "\<forall>s \<in> set (pipeline_states ag project_id request p). backend_pending s"
proof (cases "setup_project_directory ag (project_name request)")
  case None
  have "\<forall>s \<in> set (p\<lparr> status := ''planning'', progress := 0.1 \<rparr>
                    # (case create_project_plan ag project_id request of
                         Inl e \<Rightarrow> [on_exception e (p\<lparr> status := ''planning'', progress := 0.1 \<rparr>)]
                       | Inr project_plan \<Rightarrow>
                           after_plan ag project_id request project_plan
                             (p\<lparr> status := ''planning'', progress := 0.1 \<rparr>))).
          backend_pending s"
    using assms
    apply (intro pending_case pending_Cons after_plan_pending)
    apply (simp_all add: backend_pending_def)
    done
  with None show ?thesis
    by (simp add: pipeline_states_def Let_def)
next
  case (Some e)
  with assms(2) show ?thesis
    by (simp add: pipeline_states_def pending_on_exception)
qed

lemma run_trace_pending:
  assumes "repository_backend ag"
  shows "\<forall>s \<in> set (run_trace ag project_id request). backend_pending s"
proof -
  have "backend_pending (new_project project_id request)"
    by (simp add: backend_pending_def new_project_def)
  with pipeline_states_pending [OF assms this, of project_id request] show ?thesis
    by (simp add: run_trace_def)
qed

lemma repository_run_ends_in_error:
  assumes "repository_backend ag"
  shows "status (final_state ag project_id request) = ''error''"
proof -
  have "backend_pending (final_state ag project_id request)"
    using run_trace_pending [OF assms] final_state_in_run by blast
  then have p: "progress (final_state ag project_id request) \<le> 0.5"
    by (simp add: backend_pending_def)
  have "map sp (run_trace ag project_id request) = success_path (include_ai request = Some True)
        \<or> fst (last (map sp (run_trace ag project_id request))) = ''error''"
    by (rule shapes_last [OF run_trace_shape])
  then show ?thesis
  proof
    assume "map sp (run_trace ag project_id request)
              = success_path (include_ai request = Some True)"
    then have "sp (final_state ag project_id request)
                 = last (success_path (include_ai request = Some True))"
      by (simp only: final_state_sp)
    then have "progress (final_state ag project_id request) = 1"
      by (simp add: sp_def success_path_def split: if_splits)
    with p show ?thesis by simp
  next
    assume "fst (last (map sp (run_trace ag project_id request))) = ''error''"
    then show ?thesis
      by (simp add: final_state_sp [symmetric] sp_def)
  qed
qed

lemma repository_run_statuses:
  assumes "repository_backend ag" and "s \<in> set (run_trace ag project_id request)"
  shows "status s \<in> {''initializing'', ''planning'', ''designing_architecture'',
                     ''creating_frontend'', ''creating_backend'', ''error''}"
proof -
  from run_trace_pending [OF assms(1)] assms(2) have "progress s \<le> 0.5"
    by (auto simp: backend_pending_def)
  with run_state_on_path [OF assms(2)] show ?thesis
    by (auto simp: sp_def success_path_def split: if_splits)
qed

section \<open>The coordinator: progress checkpoints\<close>

text \<open>
  C1. The claim is about runs that succeed, with the checkpoints 0.5 after the backend
  stage up to 1.0 at completion. The code has no such run. For the sample request, with
  every model call succeeding, the record takes the states below: the backend stage
  raises at backend.py line 71 (\<open>_setup_project_structure\<close> has no return statement, so
  \<open>setup_result\<close> is \<open>None\<close>), the run ends with status error at progress 0.5, and no
  backend results are stored. Lemmas \<open>repository_run_ends_in_error\<close> and
  \<open>run_trace_pending\<close> show the same of every request.
\<close>

theorem run_ends_at_backend_stage:
  "map sp (run_trace demo_agents ''p1'' demo_request)
     = [(''initializing'', 0), (''planning'', 0.1), (''designing_architecture'', 0.2),
        (''creating_frontend'', 0.3), (''creating_backend'', 0.5), (''error'', 0.5)]
   \<and> map_of (details (final_state demo_agents ''p1'' demo_request)) ''error''
       = Some (JStr ([CHR 0x27] @ ''NoneType'' @ [CHR 0x27] @ '' object has no attribute ''
                     @ [CHR 0x27] @ ''get'' @ [CHR 0x27]))
   \<and> map_of (details (final_state demo_agents ''p1'' demo_request)) ''backend_results'' = None
   \<and> progress (final_state demo_agents ''p1'' demo_request) \<noteq> 1"
  by code_simp

section \<open>The coordinator: progress over every run\<close>

lemma success_path_sorted: "sorted (map snd (success_path ai))"
  by (simp add: success_path_def)

lemma success_path_bounds: "x \<in> snd ` set (success_path ai) \<Longrightarrow> 0 \<le> x \<and> x \<le> 1"
  by (auto simp: success_path_def split: if_splits)

lemma run_progress_monotone_bounded:
  "sorted (map progress (run_trace ag project_id request))
   \<and> (\<forall>s \<in> set (run_trace ag project_id request). 0 \<le> progress s \<and> progress s \<le> 1)"
proof -
  let ?l = "map sp (run_trace ag project_id request)"
  have l: "?l \<in> set (shapes (success_path (include_ai request = Some True)))"
    by (rule run_trace_shape)
  have "map snd ?l = map progress (run_trace ag project_id request)"
    by (simp add: sp_def)
  then have "sorted (map progress (run_trace ag project_id request))"
    using shapes_sorted [OF success_path_sorted l] by (simp only:)
  moreover have "0 \<le> progress s \<and> progress s \<le> 1"
    if "s \<in> set (run_trace ag project_id request)" for s
  proof -
    from that have "sp s \<in> set ?l" by simp
    from shapes_progress [OF l this] have "progress s \<in> snd ` set (success_path (include_ai request = Some True))"
      by (simp add: sp_def)
    then show ?thesis by (rule success_path_bounds)
  qed
  ultimately show ?thesis by simp
qed

lemma completed_state_full_progress:
  assumes "s \<in> set (run_trace ag project_id request)" and "status s = ''completed''"
  shows "progress s = 1"
  using run_state_on_path [OF assms(1)] assms(2)
  by (auto simp: sp_def success_path_def split: if_splits)

text \<open>
  C2. Over every run, whatever the executors return or raise, the progress never
  decreases and stays between 0 and 1, and a state with status completed has progress 1.
  On the code of the repository, whose backend stage raises, the progress of a state is 1
  only if its status is completed (no state gets past 0.5), so progress is 1 exactly when
  the status is completed, in every state and in the one the run leaves behind.
\<close>

theorem progress_monotone_and_full_iff_completed:
  "sorted (map progress (run_trace ag project_id request))
   \<and> (\<forall>s \<in> set (run_trace ag project_id request).
        0 \<le> progress s \<and> progress s \<le> 1 \<and> (status s = ''completed'' \<longrightarrow> progress s = 1))
   \<and> (repository_backend ag \<longrightarrow>
        (\<forall>s \<in> set (run_trace ag project_id request).
           progress s = 1 \<longleftrightarrow> status s = ''completed'')
        \<and> (progress (final_state ag project_id request) = 1
             \<longleftrightarrow> status (final_state ag project_id request) = ''completed''))"
proof -
  have a: "\<forall>s \<in> set (run_trace ag project_id request).
             0 \<le> progress s \<and> progress s \<le> 1 \<and> (status s = ''completed'' \<longrightarrow> progress s = 1)"
    using run_progress_monotone_bounded [of ag project_id request]
      completed_state_full_progress [of _ ag project_id request]
    by blast
  have b: "progress s = 1 \<longleftrightarrow> status s = ''completed''"
    if "repository_backend ag" "s \<in> set (run_trace ag project_id request)" for s
    using run_trace_pending [OF that(1), of project_id request] that(2)
    by (auto simp: backend_pending_def)
  from a b [OF _ final_state_in_run] b run_progress_monotone_bounded [of ag project_id request]
  show ?thesis
    by blast
qed

theorem progress_monotone_and_full_iff_completed_witness:
  "repository_backend demo_agents
   \<and> map progress (run_trace demo_agents ''p1'' demo_request) = [0, 0.1, 0.2, 0.3, 0.5, 0.5]
   \<and> sorted (map progress (run_trace demo_agents ''p1'' demo_request))
   \<and> ((progress (final_state demo_agents ''p1'' demo_request) = 1)
        = (status (final_state demo_agents ''p1'' demo_request) = ''completed''))
   \<and> status (final_state demo_agents ''p1'' demo_request) = ''error''"
proof -
  have "map progress (run_trace demo_agents ''p1'' demo_request) = [0, 0.1, 0.2, 0.3, 0.5, 0.5]"
    by code_simp
  moreover have "status (final_state demo_agents ''p1'' demo_request) = ''error''"
    by code_simp
  ultimately show ?thesis
    using progress_monotone_and_full_iff_completed [of demo_agents "''p1''" demo_request]
      demo_agents_repository
    by blast
qed

section \<open>The coordinator: a failing architecture stage\<close>

text \<open>
  C4 (as amended). When the architecture stage raises, the run ends with status error;
  the progress is 0.2, the value written on entering the architecture stage, and no
  state of the run has a larger one; \<open>details.error\<close> holds the text of the exception as
  it is (so it is empty exactly when that text is).
\<close>

theorem architecture_failure:
  assumes "setup_project_directory ag (project_name request) = None"
    and "create_project_plan ag project_id request = Inr project_plan"
    and "create_architecture ag project_id project_plan = Inl e"
  shows "status (final_state ag project_id request) = ''error''
         \<and> progress (final_state ag project_id request) = 0.2
         \<and> map_of (details (final_state ag project_id request)) ''error'' = Some (JStr e)
         \<and> (\<forall>s \<in> set (run_trace ag project_id request). progress s \<le> 0.2)
         \<and> map sp (run_trace ag project_id request)
             = [(''initializing'', 0), (''planning'', 0.1),
                (''designing_architecture'', 0.2), (''error'', 0.2)]"
  using assms
  by (simp add: final_state_def run_trace_def pipeline_states_def after_plan_def Let_def
        on_exception_def update_conv' sp_def new_project_def)

theorem architecture_failure_witness:
  "setup_project_directory (demo_agents\<lparr> create_architecture := (\<lambda>_ _. Inl ''quota exceeded'') \<rparr>)
       (project_name demo_request) = None
   \<and> create_project_plan (demo_agents\<lparr> create_architecture := (\<lambda>_ _. Inl ''quota exceeded'') \<rparr>)
       ''p1'' demo_request = Inr demo_plan
   \<and> create_architecture (demo_agents\<lparr> create_architecture := (\<lambda>_ _. Inl ''quota exceeded'') \<rparr>)
       ''p1'' demo_plan = Inl ''quota exceeded''
   \<and> status (final_state (demo_agents\<lparr> create_architecture := (\<lambda>_ _. Inl ''quota exceeded'') \<rparr>)
                         ''p1'' demo_request) = ''error''
   \<and> progress (final_state (demo_agents\<lparr> create_architecture := (\<lambda>_ _. Inl ''quota exceeded'') \<rparr>)
                           ''p1'' demo_request) = 0.2
   \<and> map_of (details (final_state
                (demo_agents\<lparr> create_architecture := (\<lambda>_ _. Inl ''quota exceeded'') \<rparr>)
                ''p1'' demo_request)) ''error'' = Some (JStr ''quota exceeded'')"
proof -
  let ?ag = "demo_agents\<lparr> create_architecture := (\<lambda>_ _. Inl ''quota exceeded'') \<rparr>"
  have 1: "setup_project_directory ?ag (project_name demo_request) = None"
    by (simp add: demo_agents_def)
  have 2: "create_project_plan ?ag ''p1'' demo_request = Inr demo_plan"
    by (simp add: demo_agents_def)
  have 3: "create_architecture ?ag ''p1'' demo_plan = Inl ''quota exceeded''"
    by simp
  from architecture_failure [OF 1 2 3] 1 2 3 show ?thesis
    by simp
qed

text \<open>
  C4 as stated fails: with an architecture stage that raises, the run ends in error with
  progress 0.2, which is past 0.1.
\<close>

theorem architecture_failure_progress_counterexample:
  "create_architecture (demo_agents\<lparr> create_architecture := (\<lambda>_ _. Inl ''quota exceeded'') \<rparr>)
       ''p1'' demo_plan = Inl ''quota exceeded''
   \<and> status (final_state (demo_agents\<lparr> create_architecture := (\<lambda>_ _. Inl ''quota exceeded'') \<rparr>)
                         ''p1'' demo_request) = ''error''
   \<and> progress (final_state (demo_agents\<lparr> create_architecture := (\<lambda>_ _. Inl ''quota exceeded'') \<rparr>)
                           ''p1'' demo_request) = 0.2
   \<and> \<not> progress (final_state (demo_agents\<lparr> create_architecture := (\<lambda>_ _. Inl ''quota exceeded'') \<rparr>)
                             ''p1'' demo_request) \<le> 0.1"
  by code_simp

section \<open>The coordinator: the optional AI stage\<close>

text \<open>
  What holds of every run whose request does not ask for AI components (\<open>include_ai\<close> is
  false or absent), whatever the executors do: no state has the status
  creating_ai_components, and no state has an \<open>ai_results\<close> key in its details.
\<close>

lemma without_ai_no_ai_stage:
  assumes "include_ai request \<noteq> Some True"
    and "s \<in> set (run_trace ag project_id request)"
  shows "status s \<noteq> ''creating_ai_components''
         \<and> map_of (details s) ''ai_results'' = None"
proof -
  have ai: "(include_ai request = Some True) = False"
    using assms(1) by simp
  have "sp s \<in> set (success_path False) \<or> status s = ''error''"
    using run_state_on_path [OF assms(2)] by (simp only: ai)
  then have "status s \<noteq> ''creating_ai_components''"
    by (auto simp: sp_def success_path_def)
  moreover have "map_of (details s) ''ai_results'' = None"
    using run_trace_no_ai [OF assms(1), of ag project_id] assms(2)
    by (simp add: no_ai_results_def)
  ultimately show ?thesis by simp
qed

text \<open>
  C5. The claim has the pipeline go from the backend stage to the documentation stage
  and has the documentation and finalize stages run. On the code they never run: for
  the sample request, which does not ask for AI components and whose model calls all
  succeed, the backend stage raises (backend.py line 71), the run ends with status
  error, and the record never has the status creating_documentation or finalizing and
  never holds documentation results or a final report. The status
  creating_ai_components is not entered and no AI results are stored, as the claim says.
  Lemmas \<open>repository_run_statuses\<close> and \<open>without_ai_no_ai_stage\<close> show the same of every
  request.
\<close>

theorem run_without_ai_never_documents:
  "include_ai demo_request = Some False
   \<and> map status (run_trace demo_agents ''p1'' demo_request)
       = [''initializing'', ''planning'', ''designing_architecture'', ''creating_frontend'',
          ''creating_backend'', ''error'']
   \<and> ''creating_ai_components'' \<notin> set (map status (run_trace demo_agents ''p1'' demo_request))
   \<and> ''creating_documentation'' \<notin> set (map status (run_trace demo_agents ''p1'' demo_request))
   \<and> ''finalizing'' \<notin> set (map status (run_trace demo_agents ''p1'' demo_request))
   \<and> map_of (details (final_state demo_agents ''p1'' demo_request)) ''ai_results'' = None
   \<and> map_of (details (final_state demo_agents ''p1'' demo_request)) ''doc_results'' = None
   \<and> map_of (details (final_state demo_agents ''p1'' demo_request)) ''final_report'' = None
   \<and> status (final_state demo_agents ''p1'' demo_request) = ''error''"
  by code_simp




section \<open>The coordinator: details only grow\<close>

text \<open>
  C7. Along a run of the repository, a key bound in the details of a state, other than
  the error field, is bound to the same value in every later state: each update of the
  details adds a key. (The assignment of \<open>created_files\<close> at line 279 would replace the
  empty list of submission, but it lies after the backend stage, which raises.)
\<close>

theorem details_append_only:
  assumes "repository_backend ag"
    and "i < j" and "j < length (run_trace ag project_id request)"
    and "k \<noteq> ''error''"
    and "map_of (details (run_trace ag project_id request ! i)) k = Some v"
  shows "map_of (details (run_trace ag project_id request ! j)) k = Some v"
proof (cases "k = ''created_files''")
  case True
  have "backend_pending (run_trace ag project_id request ! i)"
       "backend_pending (run_trace ag project_id request ! j)"
    using run_trace_pending [OF assms(1), of project_id request] assms(2,3)
    by simp_all
  with True assms(5) show ?thesis
    by (simp add: backend_pending_def)
next
  case False
  have "keeps (run_trace ag project_id request ! i) (run_trace ag project_id request ! j)"
    using run_trace_keeps [of ag project_id request] assms(2,3)
    by (simp add: sorted_wrt_iff_nth_less)
  with False assms(4,5) show ?thesis
    by (simp add: keeps_def)
qed

theorem details_append_only_witness:
  "repository_backend demo_agents
   \<and> (0::nat) < 5 \<and> 5 < length (run_trace demo_agents ''p1'' demo_request)
   \<and> ''created_files'' \<noteq> ''error''
   \<and> map_of (details (run_trace demo_agents ''p1'' demo_request ! 0)) ''created_files''
       = Some (JArr [])
   \<and> map_of (details (run_trace demo_agents ''p1'' demo_request ! 5)) ''created_files''
       = Some (JArr [])
   \<and> map_of (details (run_trace demo_agents ''p1'' demo_request ! 2)) ''project_plan''
       = Some demo_plan
   \<and> map_of (details (run_trace demo_agents ''p1'' demo_request ! 5)) ''project_plan''
       = Some demo_plan"
proof -
  have 1: "(0::nat) < 5" "(2::nat) < 5" by simp_all
  have 2: "5 < length (run_trace demo_agents ''p1'' demo_request)" by code_simp
  have 3: "''created_files'' \<noteq> ''error''" "''project_plan'' \<noteq> ''error''" by simp_all
  have 4: "map_of (details (run_trace demo_agents ''p1'' demo_request ! 0)) ''created_files''
             = Some (JArr [])"
    by code_simp
  have 5: "map_of (details (run_trace demo_agents ''p1'' demo_request ! 2)) ''project_plan''
             = Some demo_plan"
    by code_simp
  from details_append_only [OF demo_agents_repository 1(1) 2 3(1) 4]
       details_append_only [OF demo_agents_repository 1(2) 2 3(2) 5]
       demo_agents_repository 1 2 3 4 5
  show ?thesis
    by blast
qed

section \<open>Deleting a project\<close>




section \<open>Ordering and processing the tasks\<close>

lemma task_ranks_Inr:
  "\<forall>t \<in> set tasks. \<exists>r. task_rank t = Inr r
   \<Longrightarrow> task_ranks tasks = Inr (map (\<lambda>t. projr (task_rank t)) tasks)"
  by (induction tasks) auto

lemma task_ranks_Inl:
  "t \<in> set tasks \<Longrightarrow> task_rank t = Inl e \<Longrightarrow> \<exists>e'. task_ranks tasks = Inl e'"
  by (induction tasks) (auto split: sum.splits)

lemma insort_key_decorated:
  "\<forall>p \<in> set ys. fst p = f (snd p)
   \<Longrightarrow> map snd (insort_key fst (f x, x) ys) = insort_key f x (map snd ys)"
  by (induction ys) auto

lemma sort_key_decorated:
  "map snd (sort_key fst (zip (map f xs) xs)) = sort_key f xs
   \<and> (\<forall>p \<in> set (sort_key fst (zip (map f xs) xs)). fst p = f (snd p))"
proof (induction xs)
  case Nil
  then show ?case by simp
next
  case (Cons x xs)
  then show ?case
    using insort_key_decorated [of "sort_key fst (zip (map f xs) xs)" f x]
    by (auto simp: set_insort_key)
qed

lemma sorted_tasks_Inr:
  assumes "\<forall>t \<in> set tasks. \<exists>r. task_rank t = Inr r"
  shows "sorted_tasks tasks = Inr (sort_key (\<lambda>t. projr (task_rank t)) tasks)"
  using task_ranks_Inr [OF assms] sort_key_decorated [of "\<lambda>t. projr (task_rank t)" tasks]
  by (simp add: sorted_tasks_def)

lemma frontend_loop_calls:
  "frontend_loop env project architecture ts res fs calls = (out, fs', calls')
   \<Longrightarrow> \<exists>n \<le> length ts. calls' = calls @ take n ts \<and> (\<forall>r. out = Inr r \<longrightarrow> n = length ts)"
proof (induction ts arbitrary: res fs calls)
  case Nil
  then show ?case by auto
next
  case (Cons t ts)
  have "(calls' = calls @ [t] \<and> (\<exists>e. out = Inl e))
        \<or> (\<exists>res1 fs1. frontend_loop env project architecture ts res1 fs1 (calls @ [t])
                           = (out, fs', calls'))"
    using Cons.prems by (simp split: prod.splits sum.splits) blast+
  then show ?case
  proof
    assume "calls' = calls @ [t] \<and> (\<exists>e. out = Inl e)"
    then show ?thesis
      by (intro exI [of _ "Suc 0"]) auto
  next
    assume "\<exists>res1 fs1. frontend_loop env project architecture ts res1 fs1 (calls @ [t])
                           = (out, fs', calls')"
    then obtain res1 fs1 where
      "frontend_loop env project architecture ts res1 fs1 (calls @ [t]) = (out, fs', calls')"
      by blast
    from Cons.IH [OF this] obtain n where
      n: "n \<le> length ts" "calls' = (calls @ [t]) @ take n ts" "\<forall>r. out = Inr r \<longrightarrow> n = length ts"
      by blast
    then show ?thesis
      by (intro exI [of _ "Suc n"]) simp
  qed
qed

lemma backend_loop_calls:
  "backend_loop env project architecture ts res fs calls = (out, fs', calls')
   \<Longrightarrow> \<exists>n \<le> length ts. calls' = calls @ take n ts \<and> (\<forall>r. out = Inr r \<longrightarrow> n = length ts)"
proof (induction ts arbitrary: res fs calls)
  case Nil
  then show ?case by auto
next
  case (Cons t ts)
  have "(calls' = calls @ [t] \<and> (\<exists>e. out = Inl e))
        \<or> (\<exists>res1 fs1. backend_loop env project architecture ts res1 fs1 (calls @ [t])
                           = (out, fs', calls'))"
    using Cons.prems by (simp split: prod.splits sum.splits if_splits) blast+
  then show ?case
  proof
    assume "calls' = calls @ [t] \<and> (\<exists>e. out = Inl e)"
    then show ?thesis
      by (intro exI [of _ "Suc 0"]) auto
  next
    assume "\<exists>res1 fs1. backend_loop env project architecture ts res1 fs1 (calls @ [t])
                           = (out, fs', calls')"
    then obtain res1 fs1 where
      "backend_loop env project architecture ts res1 fs1 (calls @ [t]) = (out, fs', calls')"
      by blast
    from Cons.IH [OF this] obtain n where
      n: "n \<le> length ts" "calls' = (calls @ [t]) @ take n ts" "\<forall>r. out = Inr r \<longrightarrow> n = length ts"
      by blast
    then show ?thesis
      by (intro exI [of _ "Suc n"]) simp
  qed
qed

lemma frontend_loop_prefix:
  "frontend_loop env project architecture ts res fs [] = (out, fs', calls')
   \<Longrightarrow> prefix calls' ts \<and> (\<forall>r. out = Inr r \<longrightarrow> calls' = ts)"
  using frontend_loop_calls [of env project architecture ts res fs "[]" out fs' calls']
  by (auto simp: take_is_prefix)

lemma backend_loop_prefix:
  "backend_loop env project architecture ts res fs [] = (out, fs', calls')
   \<Longrightarrow> prefix calls' ts \<and> (\<forall>r. out = Inr r \<longrightarrow> calls' = ts)"
  using backend_loop_calls [of env project architecture ts res fs "[]" out fs' calls']
  by (auto simp: take_is_prefix)

lemma implement_frontend_calls:
  assumes "sorted_tasks tasks = Inr ordered"
    and "FrontendAgent_implement_frontend env projects_root_dir project tasks architecture fs
           = (out, fs', calls)"
  shows "prefix calls ordered \<and> (\<forall>r. out = Inr r \<longrightarrow> calls = ordered)"
  using assms
  by (auto simp: FrontendAgent_implement_frontend_def Let_def
           split: sum.splits prod.splits option.splits dest: frontend_loop_prefix)

lemma implement_backend_calls:
  assumes "sorted_tasks tasks = Inr ordered"
    and "BackendAgent_implement_backend env projects_root_dir project tasks architecture fs
           = (out, fs', calls)"
  shows "prefix calls ordered \<and> (\<forall>r. out = Inr r \<longrightarrow> calls = ordered)"
  using assms
  by (auto simp: BackendAgent_implement_backend_def Let_def
           split: sum.splits prod.splits dest: backend_loop_prefix)

lemma task_rank_cases:
  "task_rank (JObj kvs) =
     (case map_of kvs ''priority'' of
        None \<Rightarrow> Inr 1
      | Some v \<Rightarrow> priority_map_get v 1)"
  by (simp add: task_rank_def dict_get_def priority_map_def split: option.splits)

text \<open>
  C10 (as amended). The key of a task is 0 for the priority high, 2 for low and 1 for
  medium, for a missing priority and for any other string, number, boolean or null; it
  is computed for a dictionary whose priority is not a list or a dictionary. For every
  task list in which every key is computed, the agents order the tasks by a stable sort
  on that key: the ordered list has the same tasks, keys never decrease along it, the
  tasks of one key keep their original order; and both executors hand the tasks to
  \<open>_process_task\<close> in that order, all of them when the executor returns and an initial
  part when it raises.
\<close>

theorem tasks_processed_by_priority:
  "(\<forall>kvs. task_rank (JObj kvs) =
       (case map_of kvs ''priority'' of
          None \<Rightarrow> Inr 1
        | Some (JStr s) \<Rightarrow>
            Inr (if s = ''high'' then 0 else if s = ''low'' then 2 else 1)
        | Some (JArr xs) \<Rightarrow> Inl (''unhashable type: '' @ [CHR 0x27] @ ''list'' @ [CHR 0x27])
        | Some (JObj xs) \<Rightarrow> Inl (''unhashable type: '' @ [CHR 0x27] @ ''dict'' @ [CHR 0x27])
        | Some _ \<Rightarrow> Inr 1))
   \<and> ((\<forall>t \<in> set tasks. \<exists>r. task_rank t = Inr r) \<longrightarrow>
        (\<exists>ordered.
           sorted_tasks tasks = Inr ordered
           \<and> mset ordered = mset tasks
           \<and> (\<forall>i j ri rj. i < j \<and> j < length ordered
                 \<and> task_rank (ordered ! i) = Inr ri \<and> task_rank (ordered ! j) = Inr rj
                 \<longrightarrow> ri \<le> rj)
           \<and> (\<forall>r. filter (\<lambda>t. task_rank t = Inr r) ordered
                    = filter (\<lambda>t. task_rank t = Inr r) tasks)
           \<and> (\<forall>env projects_root_dir project architecture fs out fs' calls.
                 FrontendAgent_implement_frontend env projects_root_dir project tasks architecture fs
                   = (out, fs', calls)
                 \<longrightarrow> prefix calls ordered \<and> (\<forall>r. out = Inr r \<longrightarrow> calls = ordered))
           \<and> (\<forall>env projects_root_dir project architecture fs out fs' calls.
                 BackendAgent_implement_backend env projects_root_dir project tasks architecture fs
                   = (out, fs', calls)
                 \<longrightarrow> prefix calls ordered \<and> (\<forall>r. out = Inr r \<longrightarrow> calls = ordered))))"
proof (intro conjI allI impI)
  fix kvs
  show "task_rank (JObj kvs) =
       (case map_of kvs ''priority'' of
          None \<Rightarrow> Inr 1
        | Some (JStr s) \<Rightarrow>
            Inr (if s = ''high'' then 0 else if s = ''low'' then 2 else 1)
        | Some (JArr xs) \<Rightarrow> Inl (''unhashable type: '' @ [CHR 0x27] @ ''list'' @ [CHR 0x27])
        | Some (JObj xs) \<Rightarrow> Inl (''unhashable type: '' @ [CHR 0x27] @ ''dict'' @ [CHR 0x27])
        | Some _ \<Rightarrow> Inr 1)"
    by (simp add: task_rank_cases priority_map_def split: option.splits json.splits)
next
  assume a: "\<forall>t \<in> set tasks. \<exists>r. task_rank t = Inr r"
  let ?f = "\<lambda>t. projr (task_rank t)"
  let ?o = "sort_key ?f tasks"
  have s: "sorted_tasks tasks = Inr ?o"
    by (rule sorted_tasks_Inr [OF a])
  have rk: "task_rank t = Inr r \<longleftrightarrow> ?f t = r" if "t \<in> set tasks" for t r
    using a that by auto
  have 1: "mset ?o = mset tasks"
    by simp
  have 2: "ri \<le> rj"
    if "i < j \<and> j < length ?o \<and> task_rank (?o ! i) = Inr ri \<and> task_rank (?o ! j) = Inr rj"
    for i j ri rj
  proof -
    have "sorted (map ?f ?o)"
      by (rule sorted_sort_key)
    then have "map ?f ?o ! i \<le> map ?f ?o ! j"
      using that by (intro sorted_nth_mono) simp_all
    with that show ?thesis by simp
  qed
  have 3: "filter (\<lambda>t. task_rank t = Inr r) ?o = filter (\<lambda>t. task_rank t = Inr r) tasks" for r
  proof -
    have "filter (\<lambda>t. task_rank t = Inr r) ?o = filter (\<lambda>t. ?f t = r) ?o"
      by (rule filter_cong) (simp_all add: rk)
    also have "\<dots> = filter (\<lambda>t. ?f t = r) tasks"
      by (rule sort_key_stable)
    also have "\<dots> = filter (\<lambda>t. task_rank t = Inr r) tasks"
      by (rule filter_cong) (simp_all add: rk)
    finally show ?thesis .
  qed
  from s 1 2 3 implement_frontend_calls [OF s] implement_backend_calls [OF s]
  show "\<exists>ordered.
           sorted_tasks tasks = Inr ordered
           \<and> mset ordered = mset tasks
           \<and> (\<forall>i j ri rj. i < j \<and> j < length ordered
                 \<and> task_rank (ordered ! i) = Inr ri \<and> task_rank (ordered ! j) = Inr rj
                 \<longrightarrow> ri \<le> rj)
           \<and> (\<forall>r. filter (\<lambda>t. task_rank t = Inr r) ordered
                    = filter (\<lambda>t. task_rank t = Inr r) tasks)
           \<and> (\<forall>env projects_root_dir project architecture fs out fs' calls.
                 FrontendAgent_implement_frontend env projects_root_dir project tasks architecture fs
                   = (out, fs', calls)
                 \<longrightarrow> prefix calls ordered \<and> (\<forall>r. out = Inr r \<longrightarrow> calls = ordered))
           \<and> (\<forall>env projects_root_dir project architecture fs out fs' calls.
                 BackendAgent_implement_backend env projects_root_dir project tasks architecture fs
                   = (out, fs', calls)
                 \<longrightarrow> prefix calls ordered \<and> (\<forall>r. out = Inr r \<longrightarrow> calls = ordered))"
    by (intro exI [of _ ?o]) blast
qed

theorem tasks_processed_by_priority_witness:
  "task_rank (demo_tasks ! 0) = Inr 2 \<and> task_rank (demo_tasks ! 1) = Inr 1
   \<and> task_rank (demo_tasks ! 2) = Inr 0 \<and> task_rank (demo_tasks ! 3) = Inr 1
   \<and> task_rank (demo_tasks ! 4) = Inr 1 \<and> task_rank (demo_tasks ! 5) = Inr 1
   \<and> length demo_tasks = 6
   \<and> sorted_tasks demo_tasks
       = Inr [demo_tasks ! 2, demo_tasks ! 1, demo_tasks ! 3, demo_tasks ! 4, demo_tasks ! 5,
              demo_tasks ! 0]
   \<and> (\<exists>ordered. sorted_tasks demo_tasks = Inr ordered \<and> mset ordered = mset demo_tasks
         \<and> filter (\<lambda>t. task_rank t = Inr 1) ordered
             = filter (\<lambda>t. task_rank t = Inr 1) demo_tasks
         \<and> snd (snd (FrontendAgent_implement_frontend demo_frontend_env ''/srv/projects''
                        ''demo'' demo_tasks (JObj []) Map.empty)) = ordered)"
proof -
  have r: "task_rank (demo_tasks ! 0) = Inr 2" "task_rank (demo_tasks ! 1) = Inr 1"
    "task_rank (demo_tasks ! 2) = Inr 0" "task_rank (demo_tasks ! 3) = Inr 1"
    "task_rank (demo_tasks ! 4) = Inr 1" "task_rank (demo_tasks ! 5) = Inr 1"
    "length demo_tasks = 6"
    by code_simp+
  have s: "sorted_tasks demo_tasks
       = Inr [demo_tasks ! 2, demo_tasks ! 1, demo_tasks ! 3, demo_tasks ! 4, demo_tasks ! 5,
              demo_tasks ! 0]"
    by code_simp
  have h: "\<forall>t \<in> set demo_tasks. \<exists>r. task_rank t = Inr r"
    by (simp add: demo_tasks_def task_rank_cases priority_map_def)
  have f: "\<not> isl (fst (FrontendAgent_implement_frontend demo_frontend_env ''/srv/projects''
                         ''demo'' demo_tasks (JObj []) Map.empty))"
    by code_simp
  from tasks_processed_by_priority [of demo_tasks, THEN conjunct2, THEN mp, OF h]
  obtain ordered where
    o: "sorted_tasks demo_tasks = Inr ordered" "mset ordered = mset demo_tasks"
      "\<forall>r. filter (\<lambda>t. task_rank t = Inr r) ordered
             = filter (\<lambda>t. task_rank t = Inr r) demo_tasks"
      "\<forall>env projects_root_dir project architecture fs out fs' calls.
          FrontendAgent_implement_frontend env projects_root_dir project demo_tasks
            architecture fs = (out, fs', calls)
          \<longrightarrow> prefix calls ordered \<and> (\<forall>r. out = Inr r \<longrightarrow> calls = ordered)"
    by (elim exE conjE) (rule that)
  obtain out fs' calls where
    e: "FrontendAgent_implement_frontend demo_frontend_env ''/srv/projects'' ''demo''
          demo_tasks (JObj []) Map.empty = (out, fs', calls)"
    by (metis prod_cases3)
  from f e obtain res where "out = Inr res"
    by (cases out) auto
  with o(4) e have "calls = ordered"
    by blast
  with e have "snd (snd (FrontendAgent_implement_frontend demo_frontend_env ''/srv/projects''
                           ''demo'' demo_tasks (JObj []) Map.empty)) = ordered"
    by simp
  with r s o show ?thesis
    by blast
qed

text \<open>
  C10 as stated fails for a priority that is a list: the key is not 1 (medium), the sort
  raises TypeError, and the executor returns that error without processing any task.
\<close>

theorem unhashable_priority_counterexample:
  "task_rank (JObj [(''task_id'', JStr ''T1''), (''priority'', JArr [JStr ''high''])])
     = Inl (''unhashable type: '' @ [CHR 0x27] @ ''list'' @ [CHR 0x27])
   \<and> task_rank (JObj [(''task_id'', JStr ''T1''), (''priority'', JArr [JStr ''high''])])
     \<noteq> Inr 1
   \<and> sorted_tasks [JObj [(''task_id'', JStr ''T1''), (''priority'', JArr [JStr ''high''])]]
     = Inl (''unhashable type: '' @ [CHR 0x27] @ ''list'' @ [CHR 0x27])
   \<and> fst (FrontendAgent_implement_frontend demo_frontend_env ''/srv/projects'' ''demo''
            [JObj [(''task_id'', JStr ''T1''), (''priority'', JArr [JStr ''high''])]]
            (JObj []) Map.empty)
     = Inl (''unhashable type: '' @ [CHR 0x27] @ ''list'' @ [CHR 0x27])
   \<and> snd (snd (FrontendAgent_implement_frontend demo_frontend_env ''/srv/projects'' ''demo''
            [JObj [(''task_id'', JStr ''T1''), (''priority'', JArr [JStr ''high''])]]
            (JObj []) Map.empty)) = []"
  by code_simp

section \<open>What the stage executors persist\<close>

text \<open>
  The frontend agent writes its results under the name of the project before it returns
  them: after a successful call the document frontend/frontend_results.json of the
  project is the value returned.
\<close>

lemma frontend_results_persisted:
  assumes "FrontendAgent_implement_frontend env projects_root_dir project tasks
             architecture fs = (Inr r, fs', calls)"
  shows "\<exists>d. fs' (os_path_join projects_root_dir project) = Some d
             \<and> d ''frontend/frontend_results.json'' = Some r"
  using assms
  by (auto simp: FrontendAgent_implement_frontend_def write_json_def Let_def
           split: sum.splits prod.splits option.splits)

text \<open>So does the plan stage, for the plan.\<close>

lemma project_plan_persisted:
  assumes "ProjectManagerAgent_create_project_plan parsed projects_root_dir project fs
             = (Inr r, fs')"
  shows "\<exists>d. fs' (os_path_join projects_root_dir project) = Some d
             \<and> d ''project_plan.json'' = Some r"
  using assms
  by (auto simp: ProjectManagerAgent_create_project_plan_def write_json_def Let_def
           split: sum.splits)

text \<open>
  C3 fails on the code at the architecture stage. \<open>create_architecture\<close> writes
  architecture.json under \<open>project_plan.get("project_name", f"project_{project_id}")\<close>, and
  the plan is the parsed answer of the model, whose schema has no \<open>project_name\<close> key. For
  the project p1 named demo: the plan stage writes the plan under /srv/projects/demo;
  the architecture stage returns the architecture after writing it under
  /srv/projects/project_p1, and the directory of the project holds no architecture.json;
  the coordinator then advances to creating_frontend at 0.3 with the architecture in
  the details.
\<close>

theorem architecture_written_outside_project_directory:
  "name (new_project ''p1'' demo_request) = ''demo''
   \<and> ProjectManagerAgent_create_project_plan (Inr demo_plan) ''/srv/projects'' ''demo'' Map.empty
     = (Inr demo_plan, [''/srv/projects/demo'' \<mapsto> [''project_plan.json'' \<mapsto> demo_plan]])
   \<and> ProjectManagerAgent_create_architecture (Inr demo_architecture) ''/srv/projects'' ''p1''
         demo_plan [''/srv/projects/demo'' \<mapsto> [''project_plan.json'' \<mapsto> demo_plan]]
     = (Inr demo_architecture,
        [''/srv/projects/demo'' \<mapsto> [''project_plan.json'' \<mapsto> demo_plan],
         ''/srv/projects/project_p1'' \<mapsto> [''architecture.json'' \<mapsto> demo_architecture]])
   \<and> [''project_plan.json'' \<mapsto> demo_plan] ''architecture.json'' = None
   \<and> sp (run_trace demo_agents ''p1'' demo_request ! 3) = (''creating_frontend'', 0.3)
   \<and> map_of (details (run_trace demo_agents ''p1'' demo_request ! 3)) ''architecture''
       = Some demo_architecture"
proof -
  have j: "os_path_join ''/srv/projects'' ''demo'' = ''/srv/projects/demo''"
    "os_path_join ''/srv/projects'' ''project_p1'' = ''/srv/projects/project_p1''"
    by (simp_all add: os_path_join_def)
  have n: "name (new_project ''p1'' demo_request) = ''demo''"
    by (simp add: new_project_def demo_request_def)
  have p: "ProjectManagerAgent_create_project_plan (Inr demo_plan) ''/srv/projects'' ''demo''
             Map.empty
           = (Inr demo_plan, [''/srv/projects/demo'' \<mapsto> [''project_plan.json'' \<mapsto> demo_plan]])"
    by (simp add: ProjectManagerAgent_create_project_plan_def j write_json_def makedirs_def
          Let_def)
  have a: "ProjectManagerAgent_create_architecture (Inr demo_architecture) ''/srv/projects''
             ''p1'' demo_plan [''/srv/projects/demo'' \<mapsto> [''project_plan.json'' \<mapsto> demo_plan]]
     = (Inr demo_architecture,
        [''/srv/projects/demo'' \<mapsto> [''project_plan.json'' \<mapsto> demo_plan],
         ''/srv/projects/project_p1'' \<mapsto> [''architecture.json'' \<mapsto> demo_architecture]])"
    by (simp add: ProjectManagerAgent_create_architecture_def demo_plan_def dict_get_def j
          write_json_def Let_def)
  have f: "[''project_plan.json'' \<mapsto> demo_plan] ''architecture.json'' = None"
    by simp
  have r: "sp (run_trace demo_agents ''p1'' demo_request ! 3) = (''creating_frontend'', 0.3)"
    "map_of (details (run_trace demo_agents ''p1'' demo_request ! 3)) ''architecture''
       = Some demo_architecture"
    by code_simp+
  from n p a f r show ?thesis
    by simp
qed

section \<open>Cleaning a model response\<close>

text \<open>
  C8 fails on the code. For a response wrapped in two fences whose inner fence carries
  a language of the list, the clean-up of \<open>_generate_component\<close> removes both fences, and
  so does the clean-up of package.json for the language json: the inner fence is not
  kept. The clean-up of index.html in the same file, written as an if/elif, removes one
  fence and keeps the inner one.
\<close>

theorem nested_fence_stripped_twice:
  "twice_fenced ''jsx'' ''const a = 1;''
     = fence @ [newline] @ fence @ ''jsx'' @ [newline] @ ''const a = 1;'' @ [newline]
       @ fence @ [newline] @ fence
   \<and> generate_component_clean (twice_fenced ''jsx'' ''const a = 1;'') = ''const a = 1;''
   \<and> generate_component_clean (twice_fenced ''jsx'' ''const a = 1;'')
     \<noteq> fence @ ''jsx'' @ [newline] @ ''const a = 1;'' @ [newline] @ fence
   \<and> create_config_files_clean_package_json (twice_fenced ''json'' ''{}'') = ''{}''
   \<and> create_config_files_clean_index_html (twice_fenced ''html'' ''<p></p>'')
     = fence @ ''html'' @ [newline] @ ''<p></p>'' @ [newline] @ fence"
  by code_simp

end
